theory Spec2Isabelle
  imports Main
begin

section \<open>Python primitives used by the sources\<close>

text \<open>
  A Python \<open>str\<close> is modelled as \<open>string\<close>, one list element per character of the
  source string, so that \<open>length\<close> is Python's \<open>len\<close>.  An exception is a value.
  \<open>IndexError\<close> comes from indexing the result of \<open>split\<close>, \<open>AttributeError\<close> from
  calling \<open>send_message\<close> on a module-level sampler that is still \<open>None\<close>,
  \<open>QueueEmpty\<close> is \<open>queue.Empty\<close>, and \<open>Raised msg\<close> stands for any exception coming
  out of an external library call (the model, the base64 decoder, the image parser), with
  \<open>str(e) = msg\<close>.
\<close>

datatype py_exception = IndexError | AttributeError | QueueEmpty | Raised string

fun str_exc :: "py_exception \<Rightarrow> string" where
  "str_exc IndexError = ''list index out of range''"
| "str_exc AttributeError =
     [CHR 0x27] @ ''NoneType'' @ [CHR 0x27] @ '' object has no attribute ''
       @ [CHR 0x27] @ ''send_message'' @ [CHR 0x27]"
| "str_exc QueueEmpty = []"
| "str_exc (Raised msg) = msg"

text \<open>
  \<^verbatim>\<open>try: body except Exception as e: handler\<close> over a state: the handler runs in the state
  the body had reached when it raised.
\<close>

definition try_except ::
  "('s \<Rightarrow> (py_exception + 'a) \<times> 's) \<Rightarrow> (py_exception \<Rightarrow> 's \<Rightarrow> (py_exception + 'a) \<times> 's)
    \<Rightarrow> 's \<Rightarrow> (py_exception + 'a) \<times> 's" where
  "try_except body handler s =
     (case body s of (Inl e, s') \<Rightarrow> handler e s' | (Inr v, s') \<Rightarrow> (Inr v, s'))"

definition nl :: string where
  "nl = [CHR 0x0A]"

text \<open>
  \<open>s.startswith(p)\<close>, \<open>s.split(sep)\<close> for a one-character separator, \<open>xs[i]\<close> for
  \<open>i \<ge> 0\<close>, \<open>sep.join(xs)\<close> and \<open>str(n)\<close> for \<open>n \<ge> 0\<close>.
\<close>

definition startswith :: "string \<Rightarrow> string \<Rightarrow> bool" where
  "startswith s p = (take (length p) s = p)"

fun split_on :: "char \<Rightarrow> string \<Rightarrow> string list" where
  "split_on sep [] = [[]]"
| "split_on sep (ch # rest) =
     (if ch = sep then [] # split_on sep rest
      else (case split_on sep rest of [] \<Rightarrow> [[ch]] | w # ws \<Rightarrow> (ch # w) # ws))"

definition py_index :: "'a list \<Rightarrow> nat \<Rightarrow> py_exception + 'a" where
  "py_index xs i = (if i < length xs then Inr (xs ! i) else Inl IndexError)"

fun join :: "string \<Rightarrow> string list \<Rightarrow> string" where
  "join sep [] = []"
| "join sep [x] = x"
| "join sep (x # y # ys) = x @ sep @ join sep (y # ys)"

fun str_nat :: "nat \<Rightarrow> string" where
  "str_nat n =
     (if n < 10 then [char_of (48 + n)] else str_nat (n div 10) @ [char_of (48 + n mod 10)])"

declare str_nat.simps [simp del]

text \<open>
  \<open>range(i, stop, step)\<close> for a non-negative start and a positive step.  Python raises
  \<open>ValueError\<close> for a zero step; the only step the sources use is the literal 10000, and
  every statement below about a step \<open>c\<close> carries \<open>0 < c\<close>.
\<close>

function range_step :: "nat \<Rightarrow> nat \<Rightarrow> nat \<Rightarrow> nat list" where
  "range_step i stop step =
     (if step = 0 \<or> stop \<le> i then [] else i # range_step (i + step) stop step)"
  by pat_completeness auto
termination
  by (relation "measure (\<lambda>(i, stop, step). stop - i)") auto

declare range_step.simps [simp del]

text \<open>The slice \<open>xs[i:j]\<close> for \<open>0 \<le> i \<le> j\<close>; both ends are clamped to the length.\<close>

definition slice :: "'a list \<Rightarrow> nat \<Rightarrow> nat \<Rightarrow> 'a list" where
  "slice xs i j = take (j - i) (drop i xs)"

section \<open>The external model client\<close>

text \<open>
  The model, the base64 decoder and the image parser are not part of the repository.  A
  model is a function from the requests it has received so far and the current request
  to a reply or a failure.  A client object (\<open>genai\<close>'s model with its chat session, or
  the local \<open>ChatSampler\<close>) keeps the turns of the running conversation and, for counting,
  the list of every request that reached the model through it.

  \<^item> \<open>chat_send\<close> is \<open>send_message\<close> of a chat session or sampler: the request carries the
    turns so far; a reply appends the user turn and the reply to the history; a failure
    raises and leaves the history as it was.
  \<^item> \<open>generate_content\<close> is the single-shot call: no history is read or written.
  \<^item> \<open>start_chat\<close> is \<open>model.start_chat(history=[])\<close> (and \<open>ChatSampler.reset()\<close>): a
    conversation with no turns on the same model.
\<close>

type_synonym bytes = string

datatype image = Image bytes

datatype role = User | Model

datatype content = Content role string "image option"

datatype request = Request "content list" string "image option"

type_synonym model_client = "request list \<Rightarrow> request \<Rightarrow> py_exception + string"

record client_state =
  history :: "content list"
  invocations :: "request list"

record external =
  generate :: model_client
  b64decode :: "string \<Rightarrow> py_exception + bytes"
  Image_open :: "bytes \<Rightarrow> py_exception + image"

definition new_session :: client_state where
  "new_session = \<lparr>history = [], invocations = []\<rparr>"

definition start_chat :: "client_state \<Rightarrow> client_state" where
  "start_chat cs = cs\<lparr>history := []\<rparr>"

definition chat_send ::
  "model_client \<Rightarrow> string \<Rightarrow> image option \<Rightarrow> client_state
    \<Rightarrow> (py_exception + string) \<times> client_state" where
  "chat_send m text img cs =
     (let req = Request (history cs) text img in
      case m (invocations cs) req of
        Inl e \<Rightarrow> (Inl e, cs\<lparr>invocations := invocations cs @ [req]\<rparr>)
      | Inr reply \<Rightarrow>
          (Inr reply,
           cs\<lparr>history := history cs @ [Content User text img, Content Model reply None],
              invocations := invocations cs @ [req]\<rparr>))"

definition generate_content ::
  "model_client \<Rightarrow> string \<Rightarrow> image option \<Rightarrow> client_state
    \<Rightarrow> (py_exception + string) \<times> client_state" where
  "generate_content m text img cs =
     (let req = Request [] text img in
      (m (invocations cs) req, cs\<lparr>invocations := invocations cs @ [req]\<rparr>))"

section \<open>ai_assistant.py\<close>

subsection \<open>Splitting a long text\<close>

text \<open>
  \<^verbatim>\<open>chunks = [text[i:i+10000] for i in range(0, len(text), 10000)]\<close>
  The bound is a literal in the source; the comprehension is stated for a bound \<open>c\<close>
  and the source's list is \<open>split_chunks CHUNK_SIZE text\<close>.
\<close>

definition CHUNK_SIZE :: nat where
  "CHUNK_SIZE = 10000"

definition split_chunks :: "nat \<Rightarrow> string \<Rightarrow> string list" where
  "split_chunks c text = map (\<lambda>i. slice text i (i + c)) (range_step 0 (length text) c)"

subsection \<open>GemmaAssistant\<close>

record GemmaAssistant =
  use_multimodal :: bool
  chat_sampler :: client_state

definition multimodal_error :: string where
  "multimodal_error = ''Error: This assistant is not initialized with multimodal capabilities.''"

definition process_text ::
  "external \<Rightarrow> string \<Rightarrow> string option \<Rightarrow> GemmaAssistant
    \<Rightarrow> (py_exception + string) \<times> GemmaAssistant" where
  "process_text ext text prompt a =
     (let prompt' = (case prompt of
                       None \<Rightarrow> ''Please analyze the following text and provide insights:''
                     | Some p \<Rightarrow> p);
          full_prompt = prompt' @ nl @ nl @ text
      in case chat_send (generate ext) full_prompt None (chat_sampler a) of
           (response, cs) \<Rightarrow> (response, a\<lparr>chat_sampler := cs\<rparr>))"

definition process_image ::
  "external \<Rightarrow> image \<Rightarrow> string option \<Rightarrow> GemmaAssistant
    \<Rightarrow> (py_exception + string) \<times> GemmaAssistant" where
  "process_image ext img prompt a =
     (if \<not> use_multimodal a then (Inr multimodal_error, a)
      else
        (let prompt' = (case prompt of
                          None \<Rightarrow> ''Please analyze this image and describe what you see:''
                        | Some p \<Rightarrow> p)
         in case chat_send (generate ext) prompt' (Some img) (chat_sampler a) of
              (response, cs) \<Rightarrow> (response, a\<lparr>chat_sampler := cs\<rparr>)))"

text \<open>
  \<open>chat(message, image=None)\<close>: an image object is truthy, so \<open>if image\<close> is
  \<open>image \<noteq> None\<close>.
\<close>

definition GemmaAssistant_chat ::
  "external \<Rightarrow> string \<Rightarrow> image option \<Rightarrow> GemmaAssistant
    \<Rightarrow> (py_exception + string) \<times> GemmaAssistant" where
  "GemmaAssistant_chat ext message img a =
     (if img \<noteq> None \<and> \<not> use_multimodal a then (Inr multimodal_error, a)
      else case chat_send (generate ext) message img (chat_sampler a) of
             (response, cs) \<Rightarrow> (response, a\<lparr>chat_sampler := cs\<rparr>))"

definition part_prompt :: "nat \<Rightarrow> nat \<Rightarrow> string" where
  "part_prompt i n =
     ''This is part '' @ str_nat i @ '' of '' @ str_nat n
       @ '' of a document. Please summarize this section:''"

definition combine_prompt :: string where
  "combine_prompt = ''The following are summaries of different parts of a document. ''
     @ ''Please provide a coherent overall summary:''"

definition extract_error :: string where
  "extract_error = ''Error: Could not extract text from the document.''"

text \<open>
  The loop \<^verbatim>\<open>for i, chunk in enumerate(chunks)\<close>: \<open>n\<close> is \<open>len(chunks)\<close>, \<open>i\<close> the index of
  the next chunk, \<open>summaries\<close> the list built so far.  \<open>process_text\<close> is not guarded, so
  an exception of the model leaves the loop and the function.
\<close>

fun summarize_chunks ::
  "external \<Rightarrow> nat \<Rightarrow> nat \<Rightarrow> string list \<Rightarrow> string list \<Rightarrow> GemmaAssistant
    \<Rightarrow> (py_exception + string list) \<times> GemmaAssistant" where
  "summarize_chunks ext n i [] summaries a = (Inr summaries, a)"
| "summarize_chunks ext n i (chunk # rest) summaries a =
     (case process_text ext chunk (Some (part_prompt (i + 1) n)) a of
        (Inl e, a') \<Rightarrow> (Inl e, a')
      | (Inr summary, a') \<Rightarrow> summarize_chunks ext n (i + 1) rest (summaries @ [summary]) a')"

text \<open>
  \<open>summarize_document\<close> after the text has been extracted, for a bound \<open>c\<close>; the
  source's function is the instance at \<open>CHUNK_SIZE\<close>, with the text extractor (file
  access, not part of the model) as the parameter \<open>extract_text_from_document\<close>.
\<close>

definition summarize_text ::
  "nat \<Rightarrow> external \<Rightarrow> string \<Rightarrow> GemmaAssistant
    \<Rightarrow> (py_exception + string) \<times> GemmaAssistant" where
  "summarize_text c ext text a =
     (if text = [] then (Inr extract_error, a)
      else if length text > c then
        (let chunks = split_chunks c text in
         case summarize_chunks ext (length chunks) 0 chunks [] a of
           (Inl e, a') \<Rightarrow> (Inl e, a')
         | (Inr summaries, a') \<Rightarrow>
             process_text ext (join (nl @ nl) summaries) (Some combine_prompt) a')
      else process_text ext text (Some ''Please summarize this document:'') a)"

definition summarize_document ::
  "external \<Rightarrow> (string \<Rightarrow> string) \<Rightarrow> string \<Rightarrow> GemmaAssistant
    \<Rightarrow> (py_exception + string) \<times> GemmaAssistant" where
  "summarize_document ext extract_text_from_document file_path a =
     summarize_text CHUNK_SIZE ext (extract_text_from_document file_path) a"

section \<open>The result store shared by the web applications\<close>

text \<open>
  Both \<open>gemma_web_app.py\<close> and \<open>web_interface.py\<close> keep one module-level
  \<open>response_queue = queue.Queue()\<close> whose items are dictionaries with the keys
  \<open>conversation_id\<close>, \<open>response\<close> and \<open>error\<close> (\<open>None\<close> is \<open>None\<close>).  The queue is unbounded,
  so \<open>put\<close> always succeeds; \<open>get_nowait\<close> raises \<open>queue.Empty\<close> on an empty queue.
\<close>

record entry =
  conversation_id :: string
  response :: "string option"
  error :: "string option"

definition queue_put :: "entry list \<Rightarrow> entry \<Rightarrow> entry list" where
  "queue_put q item = q @ [item]"

definition get_nowait :: "entry list \<Rightarrow> (py_exception + entry) \<times> entry list" where
  "get_nowait q = (case q of [] \<Rightarrow> (Inl QueueEmpty, []) | item # rest \<Rightarrow> (Inr item, rest))"

datatype status_reply = Processing | Ready string "string option" "string option"

text \<open>
  \<open>check_status\<close> has the same text in both modules.  \<open>except queue.Empty\<close> handles that
  exception only.
\<close>

definition check_status :: "entry list \<Rightarrow> (py_exception + status_reply) \<times> entry list" where
  "check_status q =
     (case get_nowait q of
        (Inr result, q') \<Rightarrow>
          (Inr (Ready (conversation_id result) (response result) (error result)), q')
      | (Inl e, q') \<Rightarrow> (if e = QueueEmpty then (Inr Processing, q') else (Inl e, q')))"

text \<open>A client that polls \<open>n\<close> times in a row, collecting the replies.\<close>

fun poll_n :: "nat \<Rightarrow> entry list \<Rightarrow> (py_exception + status_reply) list \<times> entry list" where
  "poll_n 0 q = ([], q)"
| "poll_n (Suc n) q =
     (case check_status q of (r, q') \<Rightarrow> (case poll_n n q' of (rs, q'') \<Rightarrow> (r # rs, q'')))"

definition ready :: "entry \<Rightarrow> py_exception + status_reply" where
  "ready item = Inr (Ready (conversation_id item) (response item) (error item))"

section \<open>gemma_web_app.py\<close>

record GemmaClient =
  use_vision :: bool
  model_name :: string
  chat_session :: client_state

definition GemmaClient_init :: "bool \<Rightarrow> GemmaClient" where
  "GemmaClient_init vision =
     \<lparr>use_vision = vision,
      model_name = (if vision then ''gemma-3-vision-it'' else ''gemma-3-8b-it''),
      chat_session = new_session\<rparr>"

text \<open>
  The body of the \<open>try\<close> in \<open>GemmaClient.send_message\<close>.  \<open>image_data\<close> is an optional
  string; it is truthy when it is given and not empty.
\<close>

definition send_message_body ::
  "external \<Rightarrow> string \<Rightarrow> string option \<Rightarrow> GemmaClient
    \<Rightarrow> (py_exception + string) \<times> GemmaClient" where
  "send_message_body ext message image_data cl =
     (if image_data \<noteq> None \<and> image_data \<noteq> Some [] \<and> use_vision cl then
        (case (if startswith (the image_data) ''data:image''
               then py_index (split_on CHR '','' (the image_data)) 1
               else Inr (the image_data)) of
           Inl e \<Rightarrow> (Inl e, cl)
         | Inr image_data' \<Rightarrow>
             (case b64decode ext image_data' of
                Inl e \<Rightarrow> (Inl e, cl)
              | Inr image_bytes \<Rightarrow>
                  (case Image_open ext image_bytes of
                     Inl e \<Rightarrow> (Inl e, cl)
                   | Inr img \<Rightarrow>
                       (case generate_content (generate ext) message (Some img) (chat_session cl) of
                          (r, cs) \<Rightarrow> (r, cl\<lparr>chat_session := cs\<rparr>)))))
      else
        (case chat_send (generate ext) message None (chat_session cl) of
           (r, cs) \<Rightarrow> (r, cl\<lparr>chat_session := cs\<rparr>)))"

definition GemmaClient_send_message ::
  "external \<Rightarrow> string \<Rightarrow> string option \<Rightarrow> GemmaClient
    \<Rightarrow> (py_exception + string) \<times> GemmaClient" where
  "GemmaClient_send_message ext message image_data =
     try_except (send_message_body ext message image_data)
       (\<lambda>e cl. (Inr (''Error: '' @ str_exc e), cl))"


text \<open>The module-level state: the two global clients and the response queue.\<close>

record web_app =
  text_client :: "GemmaClient option"
  vision_client :: "GemmaClient option"
  response_queue :: "entry list"

definition put_response :: "entry \<Rightarrow> web_app \<Rightarrow> web_app" where
  "put_response item st = st\<lparr>response_queue := queue_put (response_queue st) item\<rparr>"

definition gemma_web_app_process_text_query ::
  "external \<Rightarrow> string \<Rightarrow> string \<Rightarrow> web_app \<Rightarrow> (py_exception + unit) \<times> web_app" where
  "gemma_web_app_process_text_query ext prompt conv =
     try_except
       (\<lambda>st. case text_client st of
                None \<Rightarrow>
                  (Inr (),
                   put_response
                     \<lparr>conversation_id = conv,
                      response = Some ''Error: Gemma client not initialized. Please check your API key.'',
                      error = Some ''Client not initialized''\<rparr> st)
              | Some cl \<Rightarrow>
                  (case GemmaClient_send_message ext prompt None cl of
                     (Inl e, cl') \<Rightarrow> (Inl e, st\<lparr>text_client := Some cl'\<rparr>)
                   | (Inr r, cl') \<Rightarrow>
                       (Inr (),
                        put_response \<lparr>conversation_id = conv, response = Some r, error = None\<rparr>
                          (st\<lparr>text_client := Some cl'\<rparr>))))
       (\<lambda>e st.
          (Inr (),
           put_response \<lparr>conversation_id = conv, response = None, error = Some (str_exc e)\<rparr> st))"

definition gemma_web_app_process_image_query ::
  "external \<Rightarrow> string \<Rightarrow> string \<Rightarrow> string \<Rightarrow> web_app \<Rightarrow> (py_exception + unit) \<times> web_app" where
  "gemma_web_app_process_image_query ext prompt image_data conv =
     try_except
       (\<lambda>st. case vision_client st of
                None \<Rightarrow>
                  (Inr (),
                   put_response
                     \<lparr>conversation_id = conv,
                      response = Some ''Error: Gemma vision client not initialized. Please check your API key.'',
                      error = Some ''Client not initialized''\<rparr> st)
              | Some cl \<Rightarrow>
                  (case GemmaClient_send_message ext prompt (Some image_data) cl of
                     (Inl e, cl') \<Rightarrow> (Inl e, st\<lparr>vision_client := Some cl'\<rparr>)
                   | (Inr r, cl') \<Rightarrow>
                       (Inr (),
                        put_response \<lparr>conversation_id = conv, response = Some r, error = None\<rparr>
                          (st\<lparr>vision_client := Some cl'\<rparr>))))
       (\<lambda>e st.
          (Inr (),
           put_response \<lparr>conversation_id = conv, response = None, error = Some (str_exc e)\<rparr> st))"

section \<open>web_interface.py\<close>

text \<open>
  The module-level samplers are \<open>None\<close> until \<open>load_models\<close> has run; calling
  \<open>send_message\<close> on \<open>None\<close> raises \<open>AttributeError\<close>.  The module's \<open>chat_sampler\<close>
  and \<open>response_queue\<close> are the fields \<open>chat_sampler_global\<close> and \<open>wi_response_queue\<close>:
  the plain names are fields of \<open>GemmaAssistant\<close> and of \<open>web_app\<close> already.  The two
  \<open>process_text_query\<close>, \<open>process_image_query\<close> carry their module's name.
\<close>

record web_interface =
  chat_sampler_global :: "client_state option"
  vision_chat_sampler :: "client_state option"
  wi_response_queue :: "entry list"

definition wi_put_response :: "entry \<Rightarrow> web_interface \<Rightarrow> web_interface" where
  "wi_put_response item st = st\<lparr>wi_response_queue := queue_put (wi_response_queue st) item\<rparr>"

definition web_interface_process_text_query ::
  "external \<Rightarrow> string \<Rightarrow> string \<Rightarrow> web_interface \<Rightarrow> (py_exception + unit) \<times> web_interface" where
  "web_interface_process_text_query ext prompt conv =
     try_except
       (\<lambda>st. case chat_sampler_global st of
                None \<Rightarrow> (Inl AttributeError, st)
              | Some cs \<Rightarrow>
                  (case chat_send (generate ext) prompt None cs of
                     (Inl e, cs') \<Rightarrow> (Inl e, st\<lparr>chat_sampler_global := Some cs'\<rparr>)
                   | (Inr r, cs') \<Rightarrow>
                       (Inr (),
                        wi_put_response \<lparr>conversation_id = conv, response = Some r, error = None\<rparr>
                          (st\<lparr>chat_sampler_global := Some cs'\<rparr>))))
       (\<lambda>e st.
          (Inr (),
           wi_put_response \<lparr>conversation_id = conv, response = None, error = Some (str_exc e)\<rparr> st))"

definition web_interface_process_image_query ::
  "external \<Rightarrow> string \<Rightarrow> string \<Rightarrow> string \<Rightarrow> web_interface
    \<Rightarrow> (py_exception + unit) \<times> web_interface" where
  "web_interface_process_image_query ext prompt image_data conv =
     try_except
       (\<lambda>st. case py_index (split_on CHR '','' image_data) 1 of
                Inl e \<Rightarrow> (Inl e, st)
              | Inr payload \<Rightarrow>
                  (case b64decode ext payload of
                     Inl e \<Rightarrow> (Inl e, st)
                   | Inr image_bytes \<Rightarrow>
                       (case Image_open ext image_bytes of
                          Inl e \<Rightarrow> (Inl e, st)
                        | Inr img \<Rightarrow>
                            (case vision_chat_sampler st of
                               None \<Rightarrow> (Inl AttributeError, st)
                             | Some cs \<Rightarrow>
                                 (case chat_send (generate ext) prompt (Some img) cs of
                                    (Inl e, cs') \<Rightarrow> (Inl e, st\<lparr>vision_chat_sampler := Some cs'\<rparr>)
                                  | (Inr r, cs') \<Rightarrow>
                                      (Inr (),
                                       wi_put_response
                                         \<lparr>conversation_id = conv, response = Some r, error = None\<rparr>
                                         (st\<lparr>vision_chat_sampler := Some cs'\<rparr>)))))))
       (\<lambda>e st.
          (Inr (),
           wi_put_response \<lparr>conversation_id = conv, response = None, error = Some (str_exc e)\<rparr> st))"

section \<open>topic_expert.py\<close>

record TopicExpert =
  topic :: string
  expert_context :: "string option"
  expert_model_name :: string
  chat :: client_state

text \<open>
  The message \<open>_send_system_prompt\<close> sends.  Its parameter \<open>system_prompt\<close> is not used
  by the body: the message is built from the topic alone.
\<close>

definition priming_message :: "string \<Rightarrow> string" where
  "priming_message t =
     ''I want you to act as an expert on '' @ t @ ''. ''
       @ ''Please respond to all questions as if you are a leading authority on this subject. ''
       @ ''Keep your answers focused on '' @ t @ ''.''"

definition system_prompt_of :: "string \<Rightarrow> string option \<Rightarrow> string" where
  "system_prompt_of t ctx =
     ''You are an expert on '' @ t @ ''.''
       @ (case ctx of
            None \<Rightarrow> []
          | Some c \<Rightarrow> if c = [] then []
                      else '' Here'' @ [CHR 0x27] @ ''s some specialized knowledge you have: '' @ c)"

text \<open>The handler of \<open>_send_system_prompt\<close> prints the exception and returns.\<close>

definition send_system_prompt ::
  "external \<Rightarrow> string \<Rightarrow> TopicExpert \<Rightarrow> (py_exception + unit) \<times> TopicExpert" where
  "send_system_prompt ext system_prompt =
     try_except
       (\<lambda>ex. case chat_send (generate ext) (priming_message (topic ex)) None (chat ex) of
                (Inl e, cs) \<Rightarrow> (Inl e, ex\<lparr>chat := cs\<rparr>)
              | (Inr r, cs) \<Rightarrow> (Inr (), ex\<lparr>chat := cs\<rparr>))
       (\<lambda>e ex. (Inr (), ex))"

definition TopicExpert_init ::
  "external \<Rightarrow> string \<Rightarrow> string option \<Rightarrow> string \<Rightarrow> (py_exception + unit) \<times> TopicExpert" where
  "TopicExpert_init ext t ctx name =
     send_system_prompt ext (system_prompt_of t ctx)
       \<lparr>topic = t, expert_context = ctx, expert_model_name = name, chat = new_session\<rparr>"

definition ask ::
  "external \<Rightarrow> string \<Rightarrow> TopicExpert \<Rightarrow> (py_exception + string) \<times> TopicExpert" where
  "ask ext question =
     try_except
       (\<lambda>ex. case chat_send (generate ext) question None (chat ex) of
                (r, cs) \<Rightarrow> (r, ex\<lparr>chat := cs\<rparr>))
       (\<lambda>e ex. (Inr (''Error: '' @ str_exc e), ex))"

definition TopicExpert_reset ::
  "external \<Rightarrow> TopicExpert \<Rightarrow> (py_exception + unit) \<times> TopicExpert" where
  "TopicExpert_reset ext ex =
     send_system_prompt ext (system_prompt_of (topic ex) (expert_context ex))
       (ex\<lparr>chat := start_chat (chat ex)\<rparr>)"

section \<open>gemma_api.py\<close>

record GemmaAPI =
  api_model_name :: string
  api_chat_session :: client_state

definition GemmaAPI_chat ::
  "external \<Rightarrow> string \<Rightarrow> GemmaAPI \<Rightarrow> (py_exception + string) \<times> GemmaAPI" where
  "GemmaAPI_chat ext message =
     try_except
       (\<lambda>api. case chat_send (generate ext) message None (api_chat_session api) of
                 (r, cs) \<Rightarrow> (r, api\<lparr>api_chat_session := cs\<rparr>))
       (\<lambda>e api. (Inr (''Error in chat: '' @ str_exc e), api))"


section \<open>Vocabulary of the statements\<close>

text \<open>
  The answers of the model to a list of requests made one after another, starting from
  the requests \<open>log\<close> it has already received.
\<close>

fun outcomes :: "model_client \<Rightarrow> request list \<Rightarrow> request list \<Rightarrow> (py_exception + string) list" where
  "outcomes m log [] = []"
| "outcomes m log (req # reqs) = m log req # outcomes m (log @ [req]) reqs"

text \<open>
  The requests of a conversation that starts with the history \<open>h\<close>, in which the texts
  are sent in order, without images, and \<open>replies\<close> are the replies received: the request
  after a reply carries the turn it completed; a text that got no reply is the last one
  sent.  \<open>turns\<close> are the turns such a conversation adds to the history.
\<close>

fun requests_from :: "content list \<Rightarrow> string list \<Rightarrow> string list \<Rightarrow> request list" where
  "requests_from h [] replies = []"
| "requests_from h (t # ts) replies =
     Request h t None #
       (case replies of
          [] \<Rightarrow> []
        | r # rs \<Rightarrow> requests_from (h @ [Content User t None, Content Model r None]) ts rs)"

fun turns :: "string list \<Rightarrow> string list \<Rightarrow> content list" where
  "turns (t # ts) (r # rs) = Content User t None # Content Model r None # turns ts rs"
| "turns ts rs = []"

text \<open>
  The texts of a complete run of the summarizer on \<open>T\<close> at the bound \<open>c\<close>, given the
  replies: the whole text under the summarize prompt when \<open>len(T) \<le> c\<close>; otherwise one
  text per chunk, in index order, under its \<open>part k+1 of N\<close> prompt, and last the combine
  prompt over the replies to the chunks, joined by a blank line.  \<open>chunk_prompts\<close> is the
  list of the chunk texts counted from \<open>i\<close>, as the loop builds them.
\<close>

fun chunk_prompts :: "nat \<Rightarrow> nat \<Rightarrow> string list \<Rightarrow> string list" where
  "chunk_prompts n i [] = []"
| "chunk_prompts n i (chunk # rest) =
     (part_prompt (i + 1) n @ nl @ nl @ chunk) # chunk_prompts n (i + 1) rest"

definition summarize_prompts :: "nat \<Rightarrow> string \<Rightarrow> string list \<Rightarrow> string list" where
  "summarize_prompts c T replies =
     (if length T \<le> c then [''Please summarize this document:'' @ nl @ nl @ T]
      else
        map (\<lambda>k. part_prompt (k + 1) (length (split_chunks c T)) @ nl @ nl @ split_chunks c T ! k)
            [0..<length (split_chunks c T)]
          @ [combine_prompt @ nl @ nl @ join (nl @ nl) (take (length (split_chunks c T)) replies)])"

text \<open>
  The entry a worker of \<open>web_interface.py\<close> publishes for the outcome of its handler, and
  the string \<open>GemmaClient.send_message\<close> returns for the outcome of its body.
\<close>

definition published :: "string \<Rightarrow> py_exception + string \<Rightarrow> entry" where
  "published conv outcome =
     (case outcome of
        Inl e \<Rightarrow> \<lparr>conversation_id = conv, response = None, error = Some (str_exc e)\<rparr>
      | Inr r \<Rightarrow> \<lparr>conversation_id = conv, response = Some r, error = None\<rparr>)"

definition returned_by_client :: "py_exception + string \<Rightarrow> string" where
  "returned_by_client outcome = (case outcome of Inl e \<Rightarrow> ''Error: '' @ str_exc e | Inr r \<Rightarrow> r)"

text \<open>
  Concrete environments for the instances below: a model that is down, a model that
  answers every request with a short text, decoders that accept everything, and objects
  in their initial states.
\<close>

definition model_down :: model_client where
  "model_down log req = Inl (Raised ''model unavailable'')"

definition model_echo :: model_client where
  "model_echo log req = (case req of Request h t img \<Rightarrow> Inr (''summary of: '' @ take 4 t))"

definition ext_down :: external where
  "ext_down =
     \<lparr>generate = model_down, b64decode = (\<lambda>s. Inr s), Image_open = (\<lambda>b. Inr (Image b))\<rparr>"

definition ext_echo :: external where
  "ext_echo =
     \<lparr>generate = model_echo, b64decode = (\<lambda>s. Inr s), Image_open = (\<lambda>b. Inr (Image b))\<rparr>"

definition text_assistant :: GemmaAssistant where
  "text_assistant = \<lparr>use_multimodal = False, chat_sampler = new_session\<rparr>"

definition web_app_uninitialized :: web_app where
  "web_app_uninitialized = \<lparr>text_client = None, vision_client = None, response_queue = []\<rparr>"

definition web_app_ready :: web_app where
  "web_app_ready =
     \<lparr>text_client = Some (GemmaClient_init False),
      vision_client = Some (GemmaClient_init True), response_queue = []\<rparr>"

definition web_interface_ready :: web_interface where
  "web_interface_ready =
     \<lparr>chat_sampler_global = Some new_session,
      vision_chat_sampler = Some new_session, wi_response_queue = []\<rparr>"

definition expert_in_conversation :: TopicExpert where
  "expert_in_conversation =
     \<lparr>topic = ''chess'', expert_context = None, expert_model_name = ''gemma-3-8b-it'',
      chat = \<lparr>history = [Content User ''What is castling?'' None,
                         Content Model ''A king move.'' None],
              invocations = [Request [] ''What is castling?'' None]\<rparr>\<rparr>"

text \<open>
  A one-pixel PNG file, its base64 text, and decoders that know this one file and refuse
  everything else, as a base64 decoder and an image parser refuse what is not theirs.
\<close>

definition png_payload :: string where
  "png_payload =
     ''iVBORw0KGgoAAAANSUhEUgAAAAEAAAABCAIAAACQd1PeAAAADElEQVR42mP4z8AAAAMBAQD3A0FDAAAAAElFTkSuQmCC''"

definition png_bytes :: bytes where
  "png_bytes =
     [CHR 0x89, CHR 0x50, CHR 0x4E, CHR 0x47, CHR 0x0D, CHR 0x0A, CHR 0x1A, CHR 0x0A,
      CHR 0x00, CHR 0x00, CHR 0x00, CHR 0x0D, CHR 0x49, CHR 0x48, CHR 0x44, CHR 0x52,
      CHR 0x00, CHR 0x00, CHR 0x00, CHR 0x01, CHR 0x00, CHR 0x00, CHR 0x00, CHR 0x01,
      CHR 0x08, CHR 0x02, CHR 0x00, CHR 0x00, CHR 0x00, CHR 0x90, CHR 0x77, CHR 0x53,
      CHR 0xDE, CHR 0x00, CHR 0x00, CHR 0x00, CHR 0x0C, CHR 0x49, CHR 0x44, CHR 0x41,
      CHR 0x54, CHR 0x78, CHR 0xDA, CHR 0x63, CHR 0xF8, CHR 0xCF, CHR 0xC0, CHR 0x00,
      CHR 0x00, CHR 0x03, CHR 0x01, CHR 0x01, CHR 0x00, CHR 0xF7, CHR 0x03, CHR 0x41,
      CHR 0x43, CHR 0x00, CHR 0x00, CHR 0x00, CHR 0x00, CHR 0x49, CHR 0x45, CHR 0x4E,
      CHR 0x44, CHR 0xAE, CHR 0x42, CHR 0x60, CHR 0x82]"

definition b64decode_png :: "string \<Rightarrow> py_exception + bytes" where
  "b64decode_png s = (if s = png_payload then Inr png_bytes else Inl (Raised ''Incorrect padding''))"

definition Image_open_png :: "bytes \<Rightarrow> py_exception + image" where
  "Image_open_png b =
     (if b = png_bytes then Inr (Image png_bytes)
      else Inl (Raised ''cannot identify image file''))"

definition ext_png :: external where
  "ext_png = \<lparr>generate = model_echo, b64decode = b64decode_png, Image_open = Image_open_png\<rparr>"

definition ext_png_down :: external where
  "ext_png_down =
     \<lparr>generate = model_down, b64decode = b64decode_png, Image_open = Image_open_png\<rparr>"

section \<open>Properties of the chunk split\<close>

lemma range_count_step:
  fixes i stop step :: nat
  assumes "0 < step" "i < stop"
  shows "(stop - i + step - 1) div step = Suc ((stop - (i + step) + step - 1) div step)"
proof (cases "i + step \<le> stop")
  case True
  define m where "m = stop - (i + step) + step - 1"
  have "stop - i + step - 1 = m + step"
    unfolding m_def using True assms by linarith
  then have "(stop - i + step - 1) div step = (m + step) div step" by (rule arg_cong)
  also have "\<dots> = Suc (m div step)" using assms(1) div_add_self2 [of step m] by simp
  finally show ?thesis unfolding m_def .
next
  case False
  then have z: "stop - (i + step) + step - 1 = step - 1" by linarith
  have "(stop - i + step - 1) div step = 1"
  proof (rule div_nat_eqI)
    show "step * 1 \<le> stop - i + step - 1" using assms by simp
    show "stop - i + step - 1 < step * Suc 1" using assms False by simp
  qed
  moreover have "(step - 1) div step = 0" using assms(1) by simp
  ultimately show ?thesis unfolding z by simp
qed

lemma range_step_closed:
  "0 < c \<Longrightarrow> range_step i n c = map (\<lambda>k. i + k * c) [0..<(n - i + c - 1) div c]"
proof (induction i n c rule: range_step.induct)
  case (1 i stop step)
  show ?case
  proof (cases "stop \<le> i")
    case True
    with 1(2) show ?thesis by (simp add: range_step.simps)
  next
    case False
    let ?m = "(stop - (i + step) + step - 1) div step"
    have cnt: "(stop - i + step - 1) div step = Suc ?m"
      using False 1(2) by (intro range_count_step) simp_all
    have ih: "range_step (i + step) stop step = map (\<lambda>k. i + step + k * step) [0..<?m]"
      using 1 False by simp
    have "range_step i stop step = i # range_step (i + step) stop step"
      using False 1(2) by (subst range_step.simps) simp
    also have "\<dots> = map (\<lambda>k. i + k * step) (0 # map Suc [0..<?m])"
      by (simp add: ih comp_def add.assoc)
    also have "0 # map Suc [0..<?m] = [0..<Suc ?m]"
      by (simp add: upt_conv_Cons map_Suc_upt del: upt_Suc)
    finally show ?thesis by (simp only: cnt)
  qed
qed

lemma split_chunks_closed:
  "0 < c \<Longrightarrow> split_chunks c t = map (\<lambda>k. take c (drop (k * c) t)) [0..<(length t + c - 1) div c]"
  by (simp add: split_chunks_def range_step_closed slice_def comp_def)

lemma concat_chunks_upto:
  "0 < c \<Longrightarrow> concat (map (\<lambda>k. take c (drop (k * c) t)) [0..<n]) = take (n * c) t"
proof (induction n)
  case 0
  then show ?case by simp
next
  case (Suc n)
  have "take (n * c) t @ take c (drop (n * c) t) = take (n * c + c) t"
    by (simp add: take_add)
  with Suc show ?case by (simp add: add.commute)
qed



lemma ceil_div_cases:
  fixes c n :: nat
  assumes "0 < c"
  shows "(n + c - 1) div c = (if n mod c = 0 then n div c else Suc (n div c))"
proof -
  define x where "x = c * (n div c)"
  define r where "r = n mod c"
  have n: "n = x + r" by (simp add: x_def r_def)
  have r: "r < c" using assms by (simp add: r_def)
  have s1: "c * Suc (n div c) = x + c" by (simp add: x_def)
  have s2: "c * Suc (Suc (n div c)) = x + c + c" by (simp add: x_def)
  show ?thesis
  proof (cases "r = 0")
    case True
    have "(n + c - 1) div c = n div c"
    proof (rule div_nat_eqI)
      show "c * (n div c) \<le> n + c - 1" unfolding x_def [symmetric] using n True assms by linarith
      show "n + c - 1 < c * Suc (n div c)" unfolding s1 using n True assms by linarith
    qed
    with True show ?thesis by (simp add: r_def)
  next
    case False
    have "(n + c - 1) div c = Suc (n div c)"
    proof (rule div_nat_eqI)
      show "c * Suc (n div c) \<le> n + c - 1" unfolding s1 using n False by linarith
      show "n + c - 1 < c * Suc (Suc (n div c))" unfolding s2 using n r by linarith
    qed
    with False show ?thesis by (simp add: r_def)
  qed
qed



lemma split_chunks_length:
  "0 < c \<Longrightarrow> length (split_chunks c t) = (length t + c - 1) div c"
  by (simp add: split_chunks_closed)

lemma split_chunks_nth:
  "0 < c \<Longrightarrow> k < length (split_chunks c t) \<Longrightarrow> split_chunks c t ! k = take c (drop (k * c) t)"
  by (simp add: split_chunks_closed)

lemma ceil_div_covers:
  fixes c n :: nat
  assumes "0 < c"
  shows "n \<le> ((n + c - 1) div c) * c"
proof -
  define x where "x = (n div c) * c"
  have n: "n = x + n mod c" by (simp add: x_def)
  have r: "n mod c < c" using assms by simp
  show ?thesis
  proof (cases "n mod c = 0")
    case True
    then have "((n + c - 1) div c) * c = x"
      using ceil_div_cases [OF assms, of n] by (simp add: x_def)
    then show ?thesis using n True by linarith
  next
    case False
    then have "((n + c - 1) div c) * c = x + c"
      using ceil_div_cases [OF assms, of n] by (simp add: x_def)
    then show ?thesis using n r by linarith
  qed
qed

lemma split_chunks_concat:
  assumes "0 < c"
  shows "concat (split_chunks c t) = t"
  using assms ceil_div_covers [OF assms, of "length t"]
  by (simp add: split_chunks_closed concat_chunks_upto)

lemma full_chunks_fit:
  fixes c n k :: nat
  assumes "0 < c" "Suc k < (n + c - 1) div c"
  shows "Suc k * c \<le> n"
proof -
  have "Suc (Suc k) \<le> (n + c - 1) div c" using assms by simp
  then have "Suc (Suc k) * c \<le> ((n + c - 1) div c) * c" by (rule mult_le_mono1)
  also have "\<dots> \<le> n + c - 1" by (rule div_times_less_eq_dividend)
  finally have "Suc k * c + c \<le> n + c - 1" by (simp add: add.commute)
  then show ?thesis using assms by linarith
qed

lemma split_chunks_full:
  assumes "0 < c" "Suc k < length (split_chunks c t)"
  shows "length (split_chunks c t ! k) = c"
proof -
  have "Suc k * c \<le> length t"
    using assms full_chunks_fit [of c k "length t"] by (simp add: split_chunks_length)
  then have "c \<le> length t - k * c" by simp
  then show ?thesis using assms by (simp add: split_chunks_nth)
qed

lemma split_chunks_last:
  assumes "0 < c" "t \<noteq> []"
  shows "length (last (split_chunks c t)) = (if length t mod c = 0 then c else length t mod c)"
proof -
  let ?n = "length t"
  let ?N = "(?n + c - 1) div c"
  have pos: "0 < ?N" using assms ceil_div_covers [of c ?n] by (cases "?N = 0") simp_all
  then have ne: "split_chunks c t \<noteq> []" using assms by (simp add: split_chunks_closed)
  have l: "last (split_chunks c t) = take c (drop ((?N - 1) * c) t)"
    using pos assms by (simp add: last_conv_nth ne split_chunks_length split_chunks_nth)
  have eq: "c * (?n div c) + ?n mod c = ?n" by simp
  show ?thesis
  proof (cases "?n mod c = 0")
    case True
    then have N: "?N = ?n div c" using ceil_div_cases [OF assms(1), of ?n] by simp
    from True have "c dvd ?n" by (simp add: dvd_eq_mod_eq_0)
    then have "(?n div c) * c = ?n" by (rule dvd_div_mult_self)
    then have "?n = (?n div c) * c" by (rule sym)
    obtain m where m: "?N = Suc m" using pos by (cases ?N) simp_all
    have "(?N - 1) * c = m * c" by (simp only: m diff_Suc_1)
    moreover have "?n = m * c + c" using \<open>?n = (?n div c) * c\<close> N m by simp
    ultimately have "?n - (?N - 1) * c = c" by linarith
    then show ?thesis using True by (simp add: l)
  next
    case False
    then have N: "?N = Suc (?n div c)" using ceil_div_cases [OF assms(1), of ?n] by simp
    have "(?N - 1) * c = (?n div c) * c" by (simp only: N diff_Suc_1)
    moreover have "?n = (?n div c) * c + ?n mod c" by simp
    ultimately have "?n - (?N - 1) * c = ?n mod c" by linarith
    moreover have "?n mod c < c" using assms by simp
    ultimately show ?thesis using False by (simp add: l)
  qed
qed

text \<open>
  Claim C1.  For every text \<open>T\<close> and positive bound \<open>c\<close> with \<open>len(T) > c\<close>, the chunks
  of \<open>T\<close> concatenate, in index order, to exactly \<open>T\<close>; chunk \<open>k\<close> is the slice of \<open>T\<close>
  from offset \<open>k * c\<close> to \<open>k * c + c\<close>, so the chunks are contiguous and do not overlap;
  every chunk except the last has length exactly \<open>c\<close>; and the last chunk has length
  \<open>len(T) mod c\<close>, or \<open>c\<close> when \<open>c\<close> divides \<open>len(T)\<close>.  The source's bound is
  \<open>CHUNK_SIZE\<close>.
\<close>

theorem split_chunks_covers_text:
  assumes "0 < c" and "c < length T"
  shows "concat (split_chunks c T) = T
       \<and> (\<forall>k < length (split_chunks c T). split_chunks c T ! k = slice T (k * c) (k * c + c))
       \<and> (\<forall>k. Suc k < length (split_chunks c T) \<longrightarrow> length (split_chunks c T ! k) = c)
       \<and> length (last (split_chunks c T)) = (if length T mod c = 0 then c else length T mod c)"
proof -
  have ne: "T \<noteq> []" using assms by auto
  have a: "concat (split_chunks c T) = T"
    using assms(1) by (rule split_chunks_concat)
  have b: "\<forall>k < length (split_chunks c T). split_chunks c T ! k = slice T (k * c) (k * c + c)"
    using assms(1) by (simp add: split_chunks_nth slice_def)
  have c: "\<forall>k. Suc k < length (split_chunks c T) \<longrightarrow> length (split_chunks c T ! k) = c"
    using assms(1) split_chunks_full by blast
  have d: "length (last (split_chunks c T)) = (if length T mod c = 0 then c else length T mod c)"
    using assms(1) ne by (rule split_chunks_last)
  from a b c d show ?thesis by blast
qed



lemma split_chunks_example: "split_chunks 3 ''abcdefgh'' = [''abc'', ''def'', ''gh'']"
  by code_simp

text \<open>The theorem at the bound 3 and an eight-character text.\<close>

theorem split_chunks_covers_text_witness:
  "(0::nat) < 3 \<and> 3 < length ''abcdefgh''
   \<and> concat (split_chunks 3 ''abcdefgh'') = ''abcdefgh''
   \<and> length (last (split_chunks 3 ''abcdefgh'')) = 2"
  using split_chunks_covers_text [of 3 "''abcdefgh''"] by simp

section \<open>Model invocations of the summarizer\<close>

lemma length_chunk_prompts [simp]: "length (chunk_prompts n i chunks) = length chunks"
  by (induction chunks arbitrary: i) simp_all

lemma chunk_prompts_map:
  "chunk_prompts n i chunks
     = map (\<lambda>k. part_prompt (i + k + 1) n @ nl @ nl @ chunks ! k) [0..<length chunks]"
proof (induction chunks arbitrary: i)
  case Nil
  then show ?case by simp
next
  case (Cons chunk rest)
  have "[0..<length (chunk # rest)] = 0 # map Suc [0..<length rest]"
    by (simp add: upt_conv_Cons map_Suc_upt del: upt_Suc)
  then show ?case by (simp add: Cons.IH comp_def del: upt_Suc)
qed

lemma outcomes_append:
  "outcomes m log (xs @ ys) = outcomes m log xs @ outcomes m (log @ xs) ys"
  by (induction xs arbitrary: log) simp_all

lemma requests_from_append:
  "length rs = length ts \<Longrightarrow>
   requests_from h (ts @ us) (rs @ rs') = requests_from h ts rs @ requests_from (h @ turns ts rs) us rs'"
proof (induction ts arbitrary: h rs)
  case Nil
  then show ?case by simp
next
  case (Cons t ts)
  then obtain r rs0 where rs: "rs = r # rs0" by (cases rs) auto
  with Cons.prems have "length rs0 = length ts" by simp
  from Cons.IH [OF this] show ?case by (simp add: rs)
qed

lemma requests_from_short:
  "length rs < length ts \<Longrightarrow> requests_from h (ts @ us) rs = requests_from h ts rs"
proof (induction ts arbitrary: h rs)
  case Nil
  then show ?case by simp
next
  case (Cons t ts)
  then show ?case by (cases rs) simp_all
qed

lemma length_requests_from:
  "length (requests_from h ts rs) = min (length ts) (Suc (length rs))"
proof (induction ts arbitrary: h rs)
  case Nil
  then show ?case by simp
next
  case (Cons t ts)
  then show ?case by (cases rs) simp_all
qed

text \<open>One unguarded call.\<close>

lemma process_text_step:
  "fst (process_text ext t (Some p) a)
     = generate ext (invocations (chat_sampler a)) (Request (history (chat_sampler a)) (p @ nl @ nl @ t) None)"
  "invocations (chat_sampler (snd (process_text ext t (Some p) a)))
     = invocations (chat_sampler a) @ [Request (history (chat_sampler a)) (p @ nl @ nl @ t) None]"
  "history (chat_sampler (snd (process_text ext t (Some p) a)))
     = (case generate ext (invocations (chat_sampler a))
               (Request (history (chat_sampler a)) (p @ nl @ nl @ t) None) of
          Inl e \<Rightarrow> history (chat_sampler a)
        | Inr reply \<Rightarrow> history (chat_sampler a)
            @ [Content User (p @ nl @ nl @ t) None, Content Model reply None])"
  by (simp_all add: process_text_def chat_send_def Let_def split: sum.split)


lemma summarize_chunks_run:
  assumes "summarize_chunks ext n i chunks summaries a = (r, a')"
  shows "\<exists>replies.
      invocations (chat_sampler a')
        = invocations (chat_sampler a)
            @ requests_from (history (chat_sampler a)) (chunk_prompts n i chunks) replies
    \<and> outcomes (generate ext) (invocations (chat_sampler a))
          (requests_from (history (chat_sampler a)) (chunk_prompts n i chunks) replies)
        = map Inr replies @ (case r of Inl e \<Rightarrow> [Inl e] | Inr ss \<Rightarrow> [])
    \<and> (case r of
          Inl e \<Rightarrow> length replies < length chunks
        | Inr ss \<Rightarrow> length replies = length chunks \<and> ss = summaries @ replies
            \<and> history (chat_sampler a')
                = history (chat_sampler a) @ turns (chunk_prompts n i chunks) replies)"
  using assms
proof (induction chunks arbitrary: i summaries a)
  case Nil
  then have "r = Inr summaries" "a' = a" by simp_all
  then show ?case by (intro exI [of _ "[]"]) simp
next
  case (Cons chunk rest)
  let ?p = "part_prompt (i + 1) n"
  let ?q = "Request (history (chat_sampler a)) (?p @ nl @ nl @ chunk) None"
  let ?o = "generate ext (invocations (chat_sampler a)) ?q"
  obtain x a1 where pt: "process_text ext chunk (Some ?p) a = (x, a1)"
    by (cases "process_text ext chunk (Some ?p) a")
  have x: "x = ?o" using process_text_step(1) [of ext chunk ?p a] pt by simp
  have inv1: "invocations (chat_sampler a1) = invocations (chat_sampler a) @ [?q]"
    using process_text_step(2) [of ext chunk ?p a] pt by simp
  have his1: "history (chat_sampler a1)
     = (case ?o of Inl e \<Rightarrow> history (chat_sampler a)
        | Inr reply \<Rightarrow> history (chat_sampler a)
            @ [Content User (?p @ nl @ nl @ chunk) None, Content Model reply None])"
    using process_text_step(3) [of ext chunk ?p a] pt by simp
  show ?case
  proof (cases ?o)
    case (Inl e)
    with Cons.prems pt x have "r = Inl e" "a' = a1" by simp_all
    then show ?thesis
      using inv1 Inl by (intro exI [of _ "[]"]) simp
  next
    case (Inr reply)
    with Cons.prems pt x
    have rec: "summarize_chunks ext n (i + 1) rest (summaries @ [reply]) a1 = (r, a')"
      by simp
    from Cons.IH [OF rec] obtain replies where
      a: "invocations (chat_sampler a')
            = invocations (chat_sampler a1)
                @ requests_from (history (chat_sampler a1)) (chunk_prompts n (i + 1) rest) replies"
      and b: "outcomes (generate ext) (invocations (chat_sampler a1))
            (requests_from (history (chat_sampler a1)) (chunk_prompts n (i + 1) rest) replies)
          = map Inr replies @ (case r of Inl e \<Rightarrow> [Inl e] | Inr ss \<Rightarrow> [])"
      and c: "(case r of
            Inl e \<Rightarrow> length replies < length rest
          | Inr ss \<Rightarrow> length replies = length rest \<and> ss = (summaries @ [reply]) @ replies
              \<and> history (chat_sampler a')
                  = history (chat_sampler a1) @ turns (chunk_prompts n (i + 1) rest) replies)"
      by blast
    have his1': "history (chat_sampler a1) = history (chat_sampler a)
            @ [Content User (?p @ nl @ nl @ chunk) None, Content Model reply None]"
      using his1 Inr by simp
    show ?thesis
    proof (intro exI [of _ "reply # replies"] conjI)
      show "invocations (chat_sampler a')
        = invocations (chat_sampler a)
            @ requests_from (history (chat_sampler a)) (chunk_prompts n i (chunk # rest))
                (reply # replies)"
        using a inv1 his1' by simp
      show "outcomes (generate ext) (invocations (chat_sampler a))
          (requests_from (history (chat_sampler a)) (chunk_prompts n i (chunk # rest))
             (reply # replies))
        = map Inr (reply # replies) @ (case r of Inl e \<Rightarrow> [Inl e] | Inr ss \<Rightarrow> [])"
        using b inv1 his1' Inr by simp
      show "case r of
          Inl e \<Rightarrow> length (reply # replies) < length (chunk # rest)
        | Inr ss \<Rightarrow> length (reply # replies) = length (chunk # rest)
            \<and> ss = summaries @ reply # replies
            \<and> history (chat_sampler a')
                = history (chat_sampler a)
                    @ turns (chunk_prompts n i (chunk # rest)) (reply # replies)"
        using c his1' by (cases r) simp_all
    qed
  qed
qed


lemma summarize_prompts_long:
  assumes "0 < c" and "c < length T"
  shows "summarize_prompts c T replies
     = chunk_prompts (length (split_chunks c T)) 0 (split_chunks c T)
         @ [combine_prompt @ nl @ nl
              @ join (nl @ nl) (take (length (split_chunks c T)) replies)]"
  using assms by (simp add: summarize_prompts_def chunk_prompts_map)

lemma summarize_text_run:
  assumes "0 < c" and "T \<noteq> []"
  shows "\<exists>replies.
      invocations (chat_sampler (snd (summarize_text c ext T a)))
        = invocations (chat_sampler a)
            @ requests_from (history (chat_sampler a)) (summarize_prompts c T replies) replies
    \<and> outcomes (generate ext) (invocations (chat_sampler a))
          (requests_from (history (chat_sampler a)) (summarize_prompts c T replies) replies)
        = map Inr replies @ (case fst (summarize_text c ext T a) of Inl e \<Rightarrow> [Inl e] | Inr s \<Rightarrow> [])
    \<and> (case fst (summarize_text c ext T a) of
          Inl e \<Rightarrow> length replies < length (summarize_prompts c T replies)
        | Inr s \<Rightarrow> length replies = length (summarize_prompts c T replies) \<and> last replies = s)
    \<and> length (summarize_prompts c T replies)
        = (if length T \<le> c then 1 else (length T + c - 1) div c + 1)"
proof (cases "length T \<le> c")
  case True
  let ?p = "''Please summarize this document:''"
  let ?q = "Request (history (chat_sampler a)) (?p @ nl @ nl @ T) None"
  let ?o = "generate ext (invocations (chat_sampler a)) ?q"
  have st: "summarize_text c ext T a = process_text ext T (Some ?p) a"
    using True assms by (simp add: summarize_text_def)
  have sp: "\<And>replies. summarize_prompts c T replies = [?p @ nl @ nl @ T]"
    using True by (simp add: summarize_prompts_def)
  note ps = process_text_step [of ext T ?p a]
  show ?thesis
  proof (cases ?o)
    case (Inl e)
    show ?thesis
      using True Inl ps by (intro exI [of _ "[]"]) (simp add: st sp)
  next
    case (Inr s)
    show ?thesis
      using True Inr ps by (intro exI [of _ "[s]"]) (simp add: st sp)
  qed
next
  case False
  then have long: "c < length T" by simp
  let ?chunks = "split_chunks c T"
  let ?N = "length ?chunks"
  let ?ps = "chunk_prompts ?N 0 ?chunks"
  have N: "?N = (length T + c - 1) div c" using assms(1) by (rule split_chunks_length)
  obtain r1 a1 where loop: "summarize_chunks ext ?N 0 ?chunks [] a = (r1, a1)"
    by (cases "summarize_chunks ext ?N 0 ?chunks [] a")
  from summarize_chunks_run [OF loop] obtain replies1 where
    inv1: "invocations (chat_sampler a1)
             = invocations (chat_sampler a) @ requests_from (history (chat_sampler a)) ?ps replies1"
    and out1: "outcomes (generate ext) (invocations (chat_sampler a))
             (requests_from (history (chat_sampler a)) ?ps replies1)
           = map Inr replies1 @ (case r1 of Inl e \<Rightarrow> [Inl e] | Inr ss \<Rightarrow> [])"
    and res1: "(case r1 of
             Inl e \<Rightarrow> length replies1 < ?N
           | Inr ss \<Rightarrow> length replies1 = ?N \<and> ss = [] @ replies1
               \<and> history (chat_sampler a1) = history (chat_sampler a) @ turns ?ps replies1)"
    by blast
  have len: "\<And>replies. length (summarize_prompts c T replies) = ?N + 1"
    using assms(1) long by (simp add: summarize_prompts_long)
  show ?thesis
  proof (cases r1)
    case (Inl e)
    have st: "summarize_text c ext T a = (Inl e, a1)"
      using assms long loop Inl by (simp add: summarize_text_def Let_def)
    have short: "length replies1 < length ?ps" using res1 Inl by simp
    have req: "requests_from (history (chat_sampler a)) (summarize_prompts c T replies1) replies1
             = requests_from (history (chat_sampler a)) ?ps replies1"
      using short by (simp add: summarize_prompts_long [OF assms(1) long] requests_from_short)
    show ?thesis
      using inv1 out1 res1 Inl long N
      by (intro exI [of _ replies1]) (simp add: st req len)
  next
    case (Inr ss)
    have ss: "ss = replies1" and l1: "length replies1 = ?N"
      and h1: "history (chat_sampler a1) = history (chat_sampler a) @ turns ?ps replies1"
      using res1 Inr by simp_all
    let ?ct = "combine_prompt @ nl @ nl @ join (nl @ nl) replies1"
    let ?q = "Request (history (chat_sampler a1)) ?ct None"
    let ?o = "generate ext (invocations (chat_sampler a1)) ?q"
    have st: "summarize_text c ext T a
                = process_text ext (join (nl @ nl) replies1) (Some combine_prompt) a1"
      using assms long loop Inr ss by (simp add: summarize_text_def Let_def)
    note ps = process_text_step [of ext "join (nl @ nl) replies1" combine_prompt a1]
    have out1': "outcomes (generate ext) (invocations (chat_sampler a))
             (requests_from (history (chat_sampler a)) ?ps replies1) = map Inr replies1"
      using out1 Inr by simp
    have req: "\<And>rs'. requests_from (history (chat_sampler a))
                 (summarize_prompts c T (replies1 @ rs')) (replies1 @ rs')
             = requests_from (history (chat_sampler a)) ?ps replies1
                 @ requests_from (history (chat_sampler a1)) [?ct] rs'"
      using l1 h1
      by (simp add: summarize_prompts_long [OF assms(1) long] requests_from_append)
    show ?thesis
    proof (cases ?o)
      case (Inl e)
      show ?thesis
        using req [of "[]"] inv1 out1' Inl ps l1 long N
        by (intro exI [of _ replies1]) (simp add: st len outcomes_append)
    next
      case (Inr s)
      show ?thesis
        using req [of "[s]"] inv1 out1' Inr ps l1 long N
        by (intro exI [of _ "replies1 @ [s]"]) (simp add: st len outcomes_append)
    qed
  qed
qed


lemma summarize_document_run:
  assumes "extract_text_from_document file_path \<noteq> []"
  shows "\<exists>replies.
      invocations (chat_sampler (snd (summarize_document ext extract_text_from_document file_path a)))
        = invocations (chat_sampler a)
            @ requests_from (history (chat_sampler a))
                (summarize_prompts CHUNK_SIZE (extract_text_from_document file_path) replies) replies
    \<and> outcomes (generate ext) (invocations (chat_sampler a))
          (requests_from (history (chat_sampler a))
             (summarize_prompts CHUNK_SIZE (extract_text_from_document file_path) replies) replies)
        = map Inr replies
            @ (case fst (summarize_document ext extract_text_from_document file_path a) of
                 Inl e \<Rightarrow> [Inl e] | Inr s \<Rightarrow> [])"
proof -
  have "0 < CHUNK_SIZE" by (simp add: CHUNK_SIZE_def)
  from summarize_text_run [OF this assms, of ext a] show ?thesis
    unfolding summarize_document_def by blast
qed

lemma split_chunks_nonempty:
  assumes "0 < c" and "T \<noteq> []"
  shows "split_chunks c T \<noteq> []"
proof
  assume "split_chunks c T = []"
  then have "concat (split_chunks c T) = []" by simp
  then show False using split_chunks_concat [OF assms(1), of T] assms(2) by simp
qed

text \<open>With the model down the first invocation is the only one.\<close>

lemma summarize_text_model_down:
  assumes "0 < c" and "T \<noteq> []"
  shows "fst (summarize_text c ext_down T a) = Inl (Raised ''model unavailable'')
       \<and> length (invocations (chat_sampler (snd (summarize_text c ext_down T a))))
           = Suc (length (invocations (chat_sampler a)))"
proof (cases "length T \<le> c")
  case True
  then have "summarize_text c ext_down T a
               = process_text ext_down T (Some ''Please summarize this document:'') a"
    using assms by (simp add: summarize_text_def)
  then show ?thesis
    by (simp add: process_text_step ext_down_def model_down_def)
next
  case False
  obtain chunk rest where ch: "split_chunks c T = chunk # rest"
    using split_chunks_nonempty [OF assms] by (cases "split_chunks c T") auto
  let ?p = "part_prompt (0 + 1) (length (chunk # rest))"
  have f: "fst (process_text ext_down chunk (Some ?p) a) = Inl (Raised ''model unavailable'')"
    by (simp add: process_text_step ext_down_def model_down_def)
  obtain x a1 where pt: "process_text ext_down chunk (Some ?p) a = (x, a1)"
    by (cases "process_text ext_down chunk (Some ?p) a")
  with f have x: "x = Inl (Raised ''model unavailable'')" by simp
  have "invocations (chat_sampler a1)
          = invocations (chat_sampler a)
              @ [Request (history (chat_sampler a)) (?p @ nl @ nl @ chunk) None]"
    using process_text_step(2) [of ext_down chunk ?p a] pt by simp
  moreover have "summarize_text c ext_down T a = (Inl (Raised ''model unavailable''), a1)"
    using False assms pt x by (simp add: summarize_text_def ch Let_def)
  ultimately show ?thesis by simp
qed

text \<open>
  Claim C2, as the code has it.  For every non-empty text \<open>T\<close> and positive bound \<open>c\<close>,
  and for every model and starting state, there are replies such that:
  \<^item> the invocations the summarizer makes are exactly the requests of a conversation in
    which the texts of \<open>summarize_prompts\<close> are sent in order: the whole text when
    \<open>len(T) \<le> c\<close>; otherwise the chunks in index order, each under its own prompt, and
    then the combine prompt over the chunk summaries;
  \<^item> every invocation made returned its reply, except that the last one raised when the
    summarizer's result is an exception, and then the result is that exception: an
    invocation that raises is the last one made and leaves the function;
  \<^item> the result is a summary exactly when all the texts were sent and answered, and it
    is the last reply.
  So, provided no invocation raises, the summarizer returns a summary after exactly one
  invocation when \<open>len(T) \<le> c\<close> and exactly \<open>N + 1\<close> when \<open>len(T) > c\<close>, where
  \<open>N = ceil(len(T) / c)\<close> is the number of chunks; after a raise the count is the number
  of replies received plus one.  The source's bound is \<open>CHUNK_SIZE\<close>.
\<close>

theorem summarize_invocation_count:
  assumes "0 < c" and "T \<noteq> []"
  shows "(\<exists>replies.
      invocations (chat_sampler (snd (summarize_text c ext T a)))
        = invocations (chat_sampler a)
            @ requests_from (history (chat_sampler a)) (summarize_prompts c T replies) replies
    \<and> outcomes (generate ext) (invocations (chat_sampler a))
          (requests_from (history (chat_sampler a)) (summarize_prompts c T replies) replies)
        = map Inr replies @ (case fst (summarize_text c ext T a) of Inl e \<Rightarrow> [Inl e] | Inr s \<Rightarrow> [])
    \<and> (case fst (summarize_text c ext T a) of
          Inl e \<Rightarrow> length replies < length (summarize_prompts c T replies)
        | Inr s \<Rightarrow> length replies = length (summarize_prompts c T replies) \<and> last replies = s)
    \<and> length (summarize_prompts c T replies)
        = (if length T \<le> c then 1 else (length T + c - 1) div c + 1)
    \<and> length (invocations (chat_sampler (snd (summarize_text c ext T a))))
        = length (invocations (chat_sampler a))
          + (case fst (summarize_text c ext T a) of
               Inl e \<Rightarrow> length replies + 1
             | Inr s \<Rightarrow> (if length T \<le> c then 1 else (length T + c - 1) div c + 1)))
   \<and> ((\<forall>e. Inl e \<notin> set (outcomes (generate ext) (invocations (chat_sampler a))
                  (drop (length (invocations (chat_sampler a)))
                     (invocations (chat_sampler (snd (summarize_text c ext T a))))))) \<longrightarrow>
        (\<exists>summary. fst (summarize_text c ext T a) = Inr summary)
        \<and> length (invocations (chat_sampler (snd (summarize_text c ext T a))))
            = length (invocations (chat_sampler a))
              + (if length T \<le> c then 1 else (length T + c - 1) div c + 1))"
proof -
  from summarize_text_run [OF assms, of ext a] obtain replies where
    a: "invocations (chat_sampler (snd (summarize_text c ext T a)))
        = invocations (chat_sampler a)
            @ requests_from (history (chat_sampler a)) (summarize_prompts c T replies) replies"
    and b: "outcomes (generate ext) (invocations (chat_sampler a))
          (requests_from (history (chat_sampler a)) (summarize_prompts c T replies) replies)
        = map Inr replies @ (case fst (summarize_text c ext T a) of Inl e \<Rightarrow> [Inl e] | Inr s \<Rightarrow> [])"
    and c: "(case fst (summarize_text c ext T a) of
          Inl e \<Rightarrow> length replies < length (summarize_prompts c T replies)
        | Inr s \<Rightarrow> length replies = length (summarize_prompts c T replies) \<and> last replies = s)"
    and d: "length (summarize_prompts c T replies)
        = (if length T \<le> c then 1 else (length T + c - 1) div c + 1)"
    by blast
  have e: "length (invocations (chat_sampler (snd (summarize_text c ext T a))))
        = length (invocations (chat_sampler a))
          + (case fst (summarize_text c ext T a) of
               Inl e \<Rightarrow> length replies + 1
             | Inr s \<Rightarrow> (if length T \<le> c then 1 else (length T + c - 1) div c + 1))"
  proof (cases "fst (summarize_text c ext T a)")
    case (Inl e)
    with c have "length replies < length (summarize_prompts c T replies)" by simp
    then show ?thesis using Inl by (simp add: a length_requests_from)
  next
    case (Inr s)
    with c have "length replies = length (summarize_prompts c T replies)" by simp
    then show ?thesis using Inr d by (simp add: a length_requests_from)
  qed
  have f: "(\<forall>e. Inl e \<notin> set (outcomes (generate ext) (invocations (chat_sampler a))
                  (drop (length (invocations (chat_sampler a)))
                     (invocations (chat_sampler (snd (summarize_text c ext T a))))))) \<longrightarrow>
        (\<exists>summary. fst (summarize_text c ext T a) = Inr summary)
        \<and> length (invocations (chat_sampler (snd (summarize_text c ext T a))))
            = length (invocations (chat_sampler a))
              + (if length T \<le> c then 1 else (length T + c - 1) div c + 1)"
  proof
    assume none: "\<forall>e. Inl e \<notin> set (outcomes (generate ext) (invocations (chat_sampler a))
                  (drop (length (invocations (chat_sampler a)))
                     (invocations (chat_sampler (snd (summarize_text c ext T a))))))"
    have made: "drop (length (invocations (chat_sampler a)))
                  (invocations (chat_sampler (snd (summarize_text c ext T a))))
                = requests_from (history (chat_sampler a)) (summarize_prompts c T replies) replies"
      by (simp add: a)
    show "(\<exists>summary. fst (summarize_text c ext T a) = Inr summary)
        \<and> length (invocations (chat_sampler (snd (summarize_text c ext T a))))
            = length (invocations (chat_sampler a))
              + (if length T \<le> c then 1 else (length T + c - 1) div c + 1)"
    proof (cases "fst (summarize_text c ext T a)")
      case (Inl e)
      then have "Inl e \<in> set (outcomes (generate ext) (invocations (chat_sampler a))
          (requests_from (history (chat_sampler a)) (summarize_prompts c T replies) replies))"
        by (simp add: b)
      with none made show ?thesis by simp
    next
      case (Inr s)
      then show ?thesis using e by simp
    qed
  qed
  from a b c d e have g: "\<exists>replies.
      invocations (chat_sampler (snd (summarize_text c ext T a)))
        = invocations (chat_sampler a)
            @ requests_from (history (chat_sampler a)) (summarize_prompts c T replies) replies
    \<and> outcomes (generate ext) (invocations (chat_sampler a))
          (requests_from (history (chat_sampler a)) (summarize_prompts c T replies) replies)
        = map Inr replies @ (case fst (summarize_text c ext T a) of Inl e \<Rightarrow> [Inl e] | Inr s \<Rightarrow> [])
    \<and> (case fst (summarize_text c ext T a) of
          Inl e \<Rightarrow> length replies < length (summarize_prompts c T replies)
        | Inr s \<Rightarrow> length replies = length (summarize_prompts c T replies) \<and> last replies = s)
    \<and> length (summarize_prompts c T replies)
        = (if length T \<le> c then 1 else (length T + c - 1) div c + 1)
    \<and> length (invocations (chat_sampler (snd (summarize_text c ext T a))))
        = length (invocations (chat_sampler a))
          + (case fst (summarize_text c ext T a) of
               Inl e \<Rightarrow> length replies + 1
             | Inr s \<Rightarrow> (if length T \<le> c then 1 else (length T + c - 1) div c + 1))"
    by blast
  from g f show ?thesis by (rule conjI)
qed

text \<open>Fifteen characters with the bound 10: two chunks and three invocations.\<close>

theorem summarize_invocation_count_witness:
  "(0::nat) < 10 \<and> ''123456789012345'' \<noteq> []
   \<and> outcomes (generate ext_echo) (invocations (chat_sampler text_assistant))
        (drop (length (invocations (chat_sampler text_assistant)))
           (invocations (chat_sampler
              (snd (summarize_text 10 ext_echo ''123456789012345'' text_assistant)))))
       = [Inr ''summary of: This'', Inr ''summary of: This'', Inr ''summary of: The '']
   \<and> fst (summarize_text 10 ext_echo ''123456789012345'' text_assistant) = Inr ''summary of: The ''
   \<and> length (invocations (chat_sampler
        (snd (summarize_text 10 ext_echo ''123456789012345'' text_assistant)))) = 3"
proof -
  have h: "(0::nat) < 10" "''123456789012345'' \<noteq> []" by simp_all
  have r: "summarize_text 10 ext_echo ''123456789012345'' text_assistant
             = (Inr ''summary of: The '',
                snd (summarize_text 10 ext_echo ''123456789012345'' text_assistant))"
    "outcomes (generate ext_echo) (invocations (chat_sampler text_assistant))
        (drop (length (invocations (chat_sampler text_assistant)))
           (invocations (chat_sampler
              (snd (summarize_text 10 ext_echo ''123456789012345'' text_assistant)))))
       = [Inr ''summary of: This'', Inr ''summary of: This'', Inr ''summary of: The '']"
    by (simp_all add: summarize_text_def split_chunks_def range_step.simps slice_def
        process_text_def chat_send_def ext_echo_def model_echo_def text_assistant_def
        new_session_def Let_def part_prompt_def combine_prompt_def)
  have none: "\<forall>e. Inl e \<notin> set (outcomes (generate ext_echo)
        (invocations (chat_sampler text_assistant))
        (drop (length (invocations (chat_sampler text_assistant)))
           (invocations (chat_sampler
              (snd (summarize_text 10 ext_echo ''123456789012345'' text_assistant))))))"
    unfolding r(2) by simp
  from summarize_invocation_count [OF h, of ext_echo text_assistant] none
  have "length (invocations (chat_sampler
          (snd (summarize_text 10 ext_echo ''123456789012345'' text_assistant))))
        = length (invocations (chat_sampler text_assistant))
          + (if length ''123456789012345'' \<le> 10 then 1
             else (length ''123456789012345'' + 10 - 1) div 10 + 1)"
    by blast
  moreover have "fst (summarize_text 10 ext_echo ''123456789012345'' text_assistant)
                   = Inr ''summary of: The ''"
    using r(1) by (metis fst_conv)
  ultimately show ?thesis
    using h r(2) by (simp add: text_assistant_def new_session_def)
qed

text \<open>
  The claim as stated, without the proviso, fails at the source's bound when the model is
  down: on a text of 10001 characters the first chunk's invocation raises, and the
  summarizer has made one invocation, not three.
\<close>

theorem summarize_invocation_count_counterexample:
  "CHUNK_SIZE < length (replicate 10001 (CHR ''a''))
   \<and> fst (summarize_text CHUNK_SIZE ext_down (replicate 10001 (CHR ''a'')) text_assistant)
       = Inl (Raised ''model unavailable'')
   \<and> length (invocations (chat_sampler
        (snd (summarize_text CHUNK_SIZE ext_down (replicate 10001 (CHR ''a'')) text_assistant)))) = 1
   \<and> \<not> (length (invocations (chat_sampler
            (snd (summarize_text CHUNK_SIZE ext_down (replicate 10001 (CHR ''a''))
               text_assistant))))
          = (length (replicate 10001 (CHR ''a'')) + CHUNK_SIZE - 1) div CHUNK_SIZE + 1)"
proof -
  have h: "0 < CHUNK_SIZE" "replicate 10001 (CHR ''a'') \<noteq> []" by (simp_all add: CHUNK_SIZE_def)
  from summarize_text_model_down [OF h, of text_assistant] show ?thesis
    by (simp add: CHUNK_SIZE_def text_assistant_def new_session_def)
qed

section \<open>Empty and blank texts\<close>

text \<open>
  Claim C8.  The guard of \<open>summarize_document\<close> is \<open>if not text\<close>: the empty text is
  answered with the extraction error and no invocation.  A text that is empty only after
  trimming is not: the one-blank text goes to the model like any short text, with one
  invocation.
\<close>

theorem summarize_whitespace_only_text:
  "summarize_text CHUNK_SIZE ext '' '' a
     = process_text ext '' '' (Some ''Please summarize this document:'') a
   \<and> length (invocations (chat_sampler (snd (summarize_text CHUNK_SIZE ext '' '' a))))
     = Suc (length (invocations (chat_sampler a)))
   \<and> summarize_text CHUNK_SIZE ext [] a = (Inr extract_error, a)"
proof -
  have s: "summarize_text CHUNK_SIZE ext '' '' a
             = process_text ext '' '' (Some ''Please summarize this document:'') a"
    by (simp add: summarize_text_def CHUNK_SIZE_def)
  have e: "summarize_text CHUNK_SIZE ext [] a = (Inr extract_error, a)"
    by (simp add: summarize_text_def)
  show ?thesis
    unfolding s e
    by (simp add: process_text_def chat_send_def Let_def split: sum.split)
qed

section \<open>The workers and the result store\<close>

subsection \<open>Data-URI headers\<close>

lemma split_on_no_sep: "sep \<notin> set s \<Longrightarrow> split_on sep s = [s]"
  by (induction s) auto

lemma split_on_header: "sep \<notin> set h \<Longrightarrow> split_on sep (h @ sep # p) = h # split_on sep p"
  by (induction h) auto

lemma data_uri_payload:
  assumes "CHR '','' \<notin> set h" and "CHR '','' \<notin> set payload"
  shows "py_index (split_on CHR '','' (h @ CHR '','' # payload)) 1 = Inr payload"
  using assms by (simp add: split_on_header split_on_no_sep py_index_def)

lemma bare_payload_index_error:
  "CHR '','' \<notin> set image_data \<Longrightarrow> py_index (split_on CHR '','' image_data) 1 = Inl IndexError"
  by (simp add: split_on_no_sep py_index_def)

lemma startswith_append:
  assumes "startswith h p"
  shows "startswith (h @ t) p"
proof -
  have t: "take (length p) h = p" using assms by (simp add: startswith_def)
  then have "length (take (length p) h) = length p" by simp
  then have "length p \<le> length h" by simp
  then show ?thesis using t by (simp add: startswith_def)
qed

subsection \<open>The workers return and publish\<close>

lemma GemmaClient_send_message_returns:
  "\<exists>r cl'. GemmaClient_send_message ext message image_data cl = (Inr r, cl')"
proof -
  obtain r cl' where b: "send_message_body ext message image_data cl = (r, cl')"
    by (cases "send_message_body ext message image_data cl")
  then show ?thesis
    by (cases r) (simp_all add: GemmaClient_send_message_def try_except_def)
qed

lemma wi_text_worker_returns:
  "fst (web_interface_process_text_query ext prompt conv st) = Inr ()"
  by (simp add: web_interface_process_text_query_def try_except_def
      split: option.split prod.split sum.split)

lemma wi_image_worker_returns:
  "fst (web_interface_process_image_query ext prompt image_data conv st) = Inr ()"
  by (simp add: web_interface_process_image_query_def try_except_def
      split: option.split prod.split sum.split)

lemma app_text_worker_returns:
  "fst (gemma_web_app_process_text_query ext prompt conv st) = Inr ()"
  by (simp add: gemma_web_app_process_text_query_def try_except_def
      split: option.split prod.split sum.split)

lemma app_image_worker_returns:
  "fst (gemma_web_app_process_image_query ext prompt image_data conv st) = Inr ()"
  by (simp add: gemma_web_app_process_image_query_def try_except_def
      split: option.split prod.split sum.split)

lemma wi_text_worker_publishes:
  "\<exists>item. wi_response_queue (snd (web_interface_process_text_query ext prompt conv st)) =
            wi_response_queue st @ [item]
          \<and> conversation_id item = conv \<and> (response item = None) = (error item \<noteq> None)"
  by (simp add: web_interface_process_text_query_def try_except_def chat_send_def Let_def
      wi_put_response_def queue_put_def split: option.split prod.split sum.split)

text \<open>The entry each worker publishes, case by case.\<close>

lemma wi_text_worker_entry:
  "wi_response_queue (snd (web_interface_process_text_query ext prompt conv wst)) =
     wi_response_queue wst
       @ [published conv
            (case chat_sampler_global wst of
               None \<Rightarrow> Inl AttributeError
             | Some cs \<Rightarrow> generate ext (invocations cs) (Request (history cs) prompt None))]"
  by (simp add: web_interface_process_text_query_def try_except_def chat_send_def Let_def
      wi_put_response_def queue_put_def published_def split: option.split sum.split)

lemma wi_image_worker_entry:
  "wi_response_queue (snd (web_interface_process_image_query ext prompt image_data conv wst)) =
     wi_response_queue wst
       @ [published conv
            (case py_index (split_on CHR '','' image_data) 1 of
               Inl e \<Rightarrow> Inl e
             | Inr payload \<Rightarrow>
                 (case b64decode ext payload of
                    Inl e \<Rightarrow> Inl e
                  | Inr image_bytes \<Rightarrow>
                      (case Image_open ext image_bytes of
                         Inl e \<Rightarrow> Inl e
                       | Inr img \<Rightarrow>
                           (case vision_chat_sampler wst of
                              None \<Rightarrow> Inl AttributeError
                            | Some cs \<Rightarrow>
                                generate ext (invocations cs)
                                  (Request (history cs) prompt (Some img))))))]"
  by (simp add: web_interface_process_image_query_def try_except_def chat_send_def Let_def
      wi_put_response_def queue_put_def published_def split: option.split sum.split)

lemma send_message_body_outcome:
  "fst (send_message_body ext message image_data cl) =
     (if image_data \<noteq> None \<and> image_data \<noteq> Some [] \<and> use_vision cl then
        (case (if startswith (the image_data) ''data:image''
               then py_index (split_on CHR '','' (the image_data)) 1
               else Inr (the image_data)) of
           Inl e \<Rightarrow> Inl e
         | Inr payload \<Rightarrow>
             (case b64decode ext payload of
                Inl e \<Rightarrow> Inl e
              | Inr image_bytes \<Rightarrow>
                  (case Image_open ext image_bytes of
                     Inl e \<Rightarrow> Inl e
                   | Inr img \<Rightarrow>
                       generate ext (invocations (chat_session cl))
                         (Request [] message (Some img)))))
      else generate ext (invocations (chat_session cl))
             (Request (history (chat_session cl)) message None))"
  by (simp add: send_message_body_def chat_send_def generate_content_def Let_def
      split: option.split sum.split prod.split)

lemma GemmaClient_send_message_result:
  "fst (GemmaClient_send_message ext message image_data cl)
     = Inr (returned_by_client (fst (send_message_body ext message image_data cl)))"
proof -
  obtain r cl' where b: "send_message_body ext message image_data cl = (r, cl')"
    by (cases "send_message_body ext message image_data cl")
  then show ?thesis
    by (cases r)
       (simp_all add: GemmaClient_send_message_def try_except_def returned_by_client_def)
qed

lemma app_worker_entry_text:
  "response_queue (snd (gemma_web_app_process_text_query ext prompt conv st)) =
     response_queue st
       @ [case text_client st of
            None \<Rightarrow>
              \<lparr>conversation_id = conv,
               response = Some ''Error: Gemma client not initialized. Please check your API key.'',
               error = Some ''Client not initialized''\<rparr>
          | Some cl \<Rightarrow>
              \<lparr>conversation_id = conv,
               response = Some (returned_by_client
                  (generate ext (invocations (chat_session cl))
                     (Request (history (chat_session cl)) prompt None))),
               error = None\<rparr>]"
proof (cases "text_client st")
  case None
  then show ?thesis
    by (simp add: gemma_web_app_process_text_query_def try_except_def put_response_def
        queue_put_def)
next
  case (Some cl)
  obtain r cl' where s: "GemmaClient_send_message ext prompt None cl = (r, cl')"
    by (cases "GemmaClient_send_message ext prompt None cl")
  have "r = Inr (returned_by_client (fst (send_message_body ext prompt None cl)))"
    using GemmaClient_send_message_result [of ext prompt None cl] s by simp
  then show ?thesis
    using Some s
    by (simp add: gemma_web_app_process_text_query_def try_except_def put_response_def
        queue_put_def send_message_body_outcome)
qed

lemma app_worker_entry_image:
  "response_queue (snd (gemma_web_app_process_image_query ext prompt image_data conv st)) =
     response_queue st
       @ [case vision_client st of
            None \<Rightarrow>
              \<lparr>conversation_id = conv,
               response = Some ''Error: Gemma vision client not initialized. Please check your API key.'',
               error = Some ''Client not initialized''\<rparr>
          | Some cl \<Rightarrow>
              \<lparr>conversation_id = conv,
               response = Some (returned_by_client
                  (if image_data \<noteq> [] \<and> use_vision cl then
                     (case (if startswith image_data ''data:image''
                            then py_index (split_on CHR '','' image_data) 1
                            else Inr image_data) of
                        Inl e \<Rightarrow> Inl e
                      | Inr payload \<Rightarrow>
                          (case b64decode ext payload of
                             Inl e \<Rightarrow> Inl e
                           | Inr image_bytes \<Rightarrow>
                               (case Image_open ext image_bytes of
                                  Inl e \<Rightarrow> Inl e
                                | Inr img \<Rightarrow>
                                    generate ext (invocations (chat_session cl))
                                      (Request [] prompt (Some img)))))
                   else generate ext (invocations (chat_session cl))
                          (Request (history (chat_session cl)) prompt None))),
               error = None\<rparr>]"
proof (cases "vision_client st")
  case None
  then show ?thesis
    by (simp add: gemma_web_app_process_image_query_def try_except_def put_response_def
        queue_put_def)
next
  case (Some cl)
  obtain r cl' where s: "GemmaClient_send_message ext prompt (Some image_data) cl = (r, cl')"
    by (cases "GemmaClient_send_message ext prompt (Some image_data) cl")
  have "r = Inr (returned_by_client (fst (send_message_body ext prompt (Some image_data) cl)))"
    using GemmaClient_send_message_result [of ext prompt "Some image_data" cl] s by simp
  then show ?thesis
    using Some s
    by (simp add: gemma_web_app_process_image_query_def try_except_def put_response_def
        queue_put_def send_message_body_outcome)
qed

subsection \<open>Polling\<close>

lemma check_status_empty: "check_status [] = (Inr Processing, [])"
  by (simp add: check_status_def get_nowait_def)

lemma check_status_cons: "check_status (item # rest) = (ready item, rest)"
  by (simp add: check_status_def get_nowait_def ready_def)

lemma poll_n_empty: "poll_n k [] = (replicate k (Inr Processing), [])"
  by (induction k) (simp_all add: check_status_empty)

lemma poll_n_drains:
  "poll_n (length q + k) q = (map ready q @ replicate k (Inr Processing), [])"
  by (induction q) (simp_all add: poll_n_empty check_status_cons)

text \<open>
  Two jobs on an empty store: the worker of conversation B publishes before the worker of
  conversation A.  The next poll answers with B's entry, whoever asks.
\<close>

lemma two_jobs_first_done_first_polled:
  assumes "wi_response_queue st = []"
  shows "\<exists>r e. fst (check_status (wi_response_queue
            (snd (web_interface_process_text_query ext promptA convA
               (snd (web_interface_process_text_query ext promptB convB st))))))
          = Inr (Ready convB r e)"
proof -
  let ?st1 = "snd (web_interface_process_text_query ext promptB convB st)"
  obtain b where b: "wi_response_queue ?st1 = wi_response_queue st @ [b]"
      "conversation_id b = convB"
    using wi_text_worker_publishes [of ext promptB convB st] by blast
  obtain a where a:
    "wi_response_queue (snd (web_interface_process_text_query ext promptA convA ?st1))
       = wi_response_queue ?st1 @ [a]"
    using wi_text_worker_publishes [of ext promptA convA ?st1] by blast
  show ?thesis
    using assms a b by (simp add: check_status_def get_nowait_def)
qed

text \<open>
  Claim C3.  \<open>check_status\<close> takes no conversation id and does not wait.  On an empty
  store it answers \<open>processing\<close> and leaves the store empty.  Otherwise it removes the
  oldest entry and answers \<open>ready\<close> with that entry's conversation id, response and
  error, whatever conversation the entry belongs to.  A run of polls therefore delivers
  every entry exactly once, oldest first, and \<open>processing\<close> from then on.  When the job
  of conversation B completes before the job of conversation A, the first poll delivers
  B's entry.
\<close>

theorem check_status_oldest_first:
  "check_status [] = (Inr Processing, [])
   \<and> check_status (item # rest) = (ready item, rest)
   \<and> poll_n (length q + k) q = (map ready q @ replicate k (Inr Processing), [])
   \<and> (wi_response_queue st = [] \<longrightarrow>
        (\<exists>r e. fst (check_status (wi_response_queue
            (snd (web_interface_process_text_query ext promptA convA
               (snd (web_interface_process_text_query ext promptB convB st))))))
          = Inr (Ready convB r e)))"
  using two_jobs_first_done_first_polled [of st ext promptA convA promptB convB]
  by (simp add: check_status_empty check_status_cons poll_n_drains)

text \<open>B's job completes first; three polls deliver B's entry, A's entry, then nothing.\<close>

theorem check_status_oldest_first_witness:
  "wi_response_queue web_interface_ready = []
   \<and> fst (check_status (wi_response_queue
        (snd (web_interface_process_text_query ext_echo ''question of A'' ''A''
           (snd (web_interface_process_text_query ext_echo ''request of B'' ''B''
              web_interface_ready))))))
       = Inr (Ready ''B'' (Some ''summary of: requ'') None)
   \<and> poll_n 3 (wi_response_queue
        (snd (web_interface_process_text_query ext_echo ''question of A'' ''A''
           (snd (web_interface_process_text_query ext_echo ''request of B'' ''B''
              web_interface_ready)))))
       = ([Inr (Ready ''B'' (Some ''summary of: requ'') None),
           Inr (Ready ''A'' (Some ''summary of: ques'') None),
           Inr Processing], [])"
  using check_status_oldest_first
    [where st = web_interface_ready and ext = ext_echo and promptA = "''question of A''"
       and convA = "''A''" and promptB = "''request of B''" and convB = "''B''"
       and q = "[]" and k = 0 and rest = "[]"
       and item = "\<lparr>conversation_id = ''B'', response = None, error = None\<rparr>"]
  by (simp add: web_interface_process_text_query_def try_except_def chat_send_def Let_def
      wi_put_response_def queue_put_def web_interface_ready_def new_session_def ext_echo_def
      model_echo_def check_status_cons check_status_empty ready_def numeral_3_eq_3)

subsection \<open>An uninitialized client\<close>

lemma text_query_uninitialized:
  "text_client st = None \<Longrightarrow>
   gemma_web_app_process_text_query ext prompt conv st =
     (Inr (), put_response \<lparr>conversation_id = conv,
        response = Some ''Error: Gemma client not initialized. Please check your API key.'',
        error = Some ''Client not initialized''\<rparr> st)"
  by (simp add: gemma_web_app_process_text_query_def try_except_def)

lemma image_query_uninitialized:
  "vision_client st = None \<Longrightarrow>
   gemma_web_app_process_image_query ext prompt image_data conv st =
     (Inr (), put_response \<lparr>conversation_id = conv,
        response = Some ''Error: Gemma vision client not initialized. Please check your API key.'',
        error = Some ''Client not initialized''\<rparr> st)"
  by (simp add: gemma_web_app_process_image_query_def try_except_def)

text \<open>
  Claim C10.  When the text client (the vision client) of \<open>gemma_web_app.py\<close> is not
  initialized, the worker of a text job (an image job) publishes an entry whose response
  is an error-prefixed message and whose error is set too; a poll on a store that was
  empty answers \<open>ready\<close> with both fields non-null.
\<close>

theorem uninitialized_client_sets_response_and_error:
  "(text_client st = None \<longrightarrow>
      response_queue (snd (gemma_web_app_process_text_query ext prompt conv st)) =
        response_queue st @ [\<lparr>conversation_id = conv,
          response = Some ''Error: Gemma client not initialized. Please check your API key.'',
          error = Some ''Client not initialized''\<rparr>])
   \<and> (vision_client st = None \<longrightarrow>
      response_queue (snd (gemma_web_app_process_image_query ext prompt image_data conv st)) =
        response_queue st @ [\<lparr>conversation_id = conv,
          response = Some ''Error: Gemma vision client not initialized. Please check your API key.'',
          error = Some ''Client not initialized''\<rparr>])
   \<and> (text_client st = None \<and> response_queue st = [] \<longrightarrow>
      fst (check_status
            (response_queue (snd (gemma_web_app_process_text_query ext prompt conv st)))) =
        Inr (Ready conv (Some ''Error: Gemma client not initialized. Please check your API key.'')
                        (Some ''Client not initialized'')))"
  by (simp add: text_query_uninitialized image_query_uninitialized put_response_def queue_put_def
      check_status_cons ready_def)

theorem uninitialized_client_sets_response_and_error_witness:
  "text_client web_app_uninitialized = None \<and> vision_client web_app_uninitialized = None
   \<and> response_queue web_app_uninitialized = []
   \<and> fst (check_status (response_queue
        (snd (gemma_web_app_process_text_query ext_echo ''hello'' ''A'' web_app_uninitialized)))) =
        Inr (Ready ''A'' (Some ''Error: Gemma client not initialized. Please check your API key.'')
                        (Some ''Client not initialized''))
   \<and> response_queue (snd (gemma_web_app_process_image_query ext_echo ''hello'' ''QUJD'' ''A''
         web_app_uninitialized)) =
        [\<lparr>conversation_id = ''A'',
          response = Some ''Error: Gemma vision client not initialized. Please check your API key.'',
          error = Some ''Client not initialized''\<rparr>]"
  using uninitialized_client_sets_response_and_error
    [where st = web_app_uninitialized and ext = ext_echo and prompt = "''hello''"
       and conv = "''A''" and image_data = "''QUJD''"]
  by (simp add: web_app_uninitialized_def check_status_cons ready_def)

subsection \<open>A failing job\<close>

text \<open>
  Claim C4, as the code has it.  No worker lets a failure out: each of the four workers
  returns normally and publishes exactly one entry for its job, for every job, every
  model, every decoder and every state.
  \<^item> The workers of \<open>web_interface.py\<close> publish the outcome of their handler: a reply as
    the response with a null error; a failure, whatever it is (a sampler that is not
    loaded, a payload without a comma, a failing decode, a failing image parse, a failing
    model call), as the error field with a null response.
  \<^item> The workers of \<open>gemma_web_app.py\<close> go through \<open>GemmaClient.send_message\<close>, which
    catches the failure itself and returns an \<open>Error: \<close> message: the failure is published
    as the entry's response and the error field is null.  With no client, the entry
    carries a fixed message and a fixed error.
\<close>

theorem workers_contain_failures:
  "fst (web_interface_process_text_query ext prompt conv wst) = Inr ()
   \<and> wi_response_queue (snd (web_interface_process_text_query ext prompt conv wst)) =
       wi_response_queue wst
         @ [published conv
              (case chat_sampler_global wst of
                 None \<Rightarrow> Inl AttributeError
               | Some cs \<Rightarrow> generate ext (invocations cs) (Request (history cs) prompt None))]
   \<and> fst (web_interface_process_image_query ext prompt image_data conv wst) = Inr ()
   \<and> wi_response_queue (snd (web_interface_process_image_query ext prompt image_data conv wst)) =
       wi_response_queue wst
         @ [published conv
              (case py_index (split_on CHR '','' image_data) 1 of
                 Inl e \<Rightarrow> Inl e
               | Inr payload \<Rightarrow>
                   (case b64decode ext payload of
                      Inl e \<Rightarrow> Inl e
                    | Inr image_bytes \<Rightarrow>
                        (case Image_open ext image_bytes of
                           Inl e \<Rightarrow> Inl e
                         | Inr img \<Rightarrow>
                             (case vision_chat_sampler wst of
                                None \<Rightarrow> Inl AttributeError
                              | Some cs \<Rightarrow>
                                  generate ext (invocations cs)
                                    (Request (history cs) prompt (Some img))))))]
   \<and> fst (gemma_web_app_process_text_query ext prompt conv st) = Inr ()
   \<and> response_queue (snd (gemma_web_app_process_text_query ext prompt conv st)) =
       response_queue st
         @ [case text_client st of
              None \<Rightarrow>
                \<lparr>conversation_id = conv,
                 response = Some ''Error: Gemma client not initialized. Please check your API key.'',
                 error = Some ''Client not initialized''\<rparr>
            | Some cl \<Rightarrow>
                \<lparr>conversation_id = conv,
                 response = Some (returned_by_client
                    (generate ext (invocations (chat_session cl))
                       (Request (history (chat_session cl)) prompt None))),
                 error = None\<rparr>]
   \<and> fst (gemma_web_app_process_image_query ext prompt image_data conv st) = Inr ()
   \<and> response_queue (snd (gemma_web_app_process_image_query ext prompt image_data conv st)) =
       response_queue st
         @ [case vision_client st of
              None \<Rightarrow>
                \<lparr>conversation_id = conv,
                 response = Some ''Error: Gemma vision client not initialized. Please check your API key.'',
                 error = Some ''Client not initialized''\<rparr>
            | Some cl \<Rightarrow>
                \<lparr>conversation_id = conv,
                 response = Some (returned_by_client
                    (if image_data \<noteq> [] \<and> use_vision cl then
                       (case (if startswith image_data ''data:image''
                              then py_index (split_on CHR '','' image_data) 1
                              else Inr image_data) of
                          Inl e \<Rightarrow> Inl e
                        | Inr payload \<Rightarrow>
                            (case b64decode ext payload of
                               Inl e \<Rightarrow> Inl e
                             | Inr image_bytes \<Rightarrow>
                                 (case Image_open ext image_bytes of
                                    Inl e \<Rightarrow> Inl e
                                  | Inr img \<Rightarrow>
                                      generate ext (invocations (chat_session cl))
                                        (Request [] prompt (Some img)))))
                     else generate ext (invocations (chat_session cl))
                            (Request (history (chat_session cl)) prompt None))),
                 error = None\<rparr>]"
  by (intro conjI wi_text_worker_returns wi_image_worker_returns app_text_worker_returns
      app_image_worker_returns wi_text_worker_entry wi_image_worker_entry app_worker_entry_text
      app_worker_entry_image)

text \<open>
  A text job and an image job, the one-pixel PNG behind its header, on both applications
  while the model is down.
\<close>

theorem workers_contain_failures_witness:
  "fst (web_interface_process_text_query ext_png_down ''hello'' ''A'' web_interface_ready) = Inr ()
   \<and> wi_response_queue
        (snd (web_interface_process_text_query ext_png_down ''hello'' ''A'' web_interface_ready))
       = [\<lparr>conversation_id = ''A'', response = None, error = Some ''model unavailable''\<rparr>]
   \<and> fst (web_interface_process_image_query ext_png_down ''hello''
        (''data:image/png;base64'' @ CHR '','' # png_payload) ''A'' web_interface_ready) = Inr ()
   \<and> wi_response_queue
        (snd (web_interface_process_image_query ext_png_down ''hello''
           (''data:image/png;base64'' @ CHR '','' # png_payload) ''A'' web_interface_ready))
       = [\<lparr>conversation_id = ''A'', response = None, error = Some ''model unavailable''\<rparr>]
   \<and> fst (gemma_web_app_process_text_query ext_png_down ''hello'' ''A'' web_app_ready) = Inr ()
   \<and> response_queue
        (snd (gemma_web_app_process_text_query ext_png_down ''hello'' ''A'' web_app_ready))
       = [\<lparr>conversation_id = ''A'', response = Some ''Error: model unavailable'',
           error = None\<rparr>]
   \<and> fst (gemma_web_app_process_image_query ext_png_down ''hello''
        (''data:image/png;base64'' @ CHR '','' # png_payload) ''A'' web_app_ready) = Inr ()
   \<and> response_queue
        (snd (gemma_web_app_process_image_query ext_png_down ''hello''
           (''data:image/png;base64'' @ CHR '','' # png_payload) ''A'' web_app_ready))
       = [\<lparr>conversation_id = ''A'', response = Some ''Error: model unavailable'',
           error = None\<rparr>]"
proof -
  have idx: "py_index (split_on CHR '','' (''data:image/png;base64'' @ CHR '','' # png_payload)) 1
               = Inr png_payload"
    by (rule data_uri_payload) (simp_all add: png_payload_def)
  have sw: "startswith (''data:image/png;base64'' @ CHR '','' # png_payload) ''data:image''"
    by (rule startswith_append) (simp add: startswith_def)
  from workers_contain_failures
    [where ext = ext_png_down and prompt = "''hello''" and conv = "''A''"
       and image_data = "''data:image/png;base64'' @ CHR '','' # png_payload"
       and wst = web_interface_ready and st = web_app_ready] idx sw
  show ?thesis
    by (simp add: web_interface_ready_def web_app_ready_def GemmaClient_init_def new_session_def
        ext_png_down_def model_down_def b64decode_png_def Image_open_png_def published_def
        returned_by_client_def)
qed

text \<open>
  The claim as stated fails on \<open>gemma_web_app.py\<close>: with the model down, the entry of the
  job carries the failure in its response, and its error field is null.
\<close>

theorem workers_error_field_counterexample:
  "response_queue (snd (gemma_web_app_process_text_query ext_down ''hello'' ''A'' web_app_ready))
     = [\<lparr>conversation_id = ''A'', response = Some ''Error: model unavailable'', error = None\<rparr>]
   \<and> error (hd (response_queue
        (snd (gemma_web_app_process_text_query ext_down ''hello'' ''A'' web_app_ready))))
       \<noteq> Some ''model unavailable''"
  by (simp add: gemma_web_app_process_text_query_def GemmaClient_send_message_def
      send_message_body_def try_except_def chat_send_def Let_def put_response_def queue_put_def
      web_app_ready_def GemmaClient_init_def new_session_def ext_down_def model_down_def)

section \<open>An image for a text-only binding\<close>

lemma text_only_client_ignores_image:
  "\<not> use_vision cl \<Longrightarrow>
   invocations (chat_session (snd (GemmaClient_send_message ext message image_data cl)))
     = invocations (chat_session cl) @ [Request (history (chat_session cl)) message None]"
  by (simp add: GemmaClient_send_message_def send_message_body_def try_except_def chat_send_def
      Let_def split: sum.split)

text \<open>
  Claim C5, as the code has it.  A \<open>GemmaAssistant\<close> that is text-only answers \<open>chat\<close>
  with an image (and \<open>process_image\<close>) with the capability error and is left unchanged:
  no invocation of the model.  A \<open>GemmaClient\<close> that is text-only does not reject an
  image: \<open>send_message\<close> tests \<open>image_data and self.use_vision\<close>, takes the text-only branch
  and sends the text as an ordinary turn, one invocation that carries no image.
\<close>

theorem capability_gate:
  "(\<not> use_multimodal a \<longrightarrow>
      GemmaAssistant_chat ext message (Some img) a = (Inr multimodal_error, a))
   \<and> (\<not> use_multimodal a \<longrightarrow> process_image ext img prompt a = (Inr multimodal_error, a))
   \<and> (\<not> use_vision cl \<longrightarrow>
        invocations (chat_session (snd (GemmaClient_send_message ext message image_data cl)))
          = invocations (chat_session cl) @ [Request (history (chat_session cl)) message None])"
  by (simp add: GemmaAssistant_chat_def process_image_def text_only_client_ignores_image)

theorem capability_gate_witness:
  "\<not> use_multimodal text_assistant \<and> \<not> use_vision (GemmaClient_init False)
   \<and> GemmaAssistant_chat ext_echo ''describe this'' (Some (Image ''ABC'')) text_assistant
        = (Inr multimodal_error, text_assistant)
   \<and> invocations (chat_sampler (snd (GemmaAssistant_chat ext_echo ''describe this''
        (Some (Image ''ABC'')) text_assistant))) = []
   \<and> invocations (chat_session (snd (GemmaClient_send_message ext_echo ''describe this''
        (Some ''QUJD'') (GemmaClient_init False)))) = [Request [] ''describe this'' None]"
  using capability_gate
    [where a = text_assistant and ext = ext_echo and message = "''describe this''"
       and img = "Image ''ABC''" and cl = "GemmaClient_init False" and image_data = "Some ''QUJD''"]
  by (simp add: text_assistant_def GemmaClient_init_def new_session_def)

text \<open>
  The claim as stated fails on \<open>GemmaClient\<close>: a text-only client given an image returns
  the model's reply, after one invocation.
\<close>

theorem capability_gate_counterexample:
  "\<not> use_vision (GemmaClient_init False)
   \<and> fst (GemmaClient_send_message ext_echo ''describe this'' (Some ''QUJD'')
        (GemmaClient_init False)) = Inr ''summary of: desc''
   \<and> length (invocations (chat_session (snd (GemmaClient_send_message ext_echo ''describe this''
        (Some ''QUJD'') (GemmaClient_init False))))) = 1
   \<and> length (invocations (chat_session (snd (GemmaClient_send_message ext_echo ''describe this''
        (Some ''QUJD'') (GemmaClient_init False))))) \<noteq> 0"
  by (simp add: GemmaClient_send_message_def send_message_body_def try_except_def chat_send_def
      Let_def GemmaClient_init_def new_session_def ext_echo_def model_echo_def)

section \<open>Reset and priming\<close>

lemma send_system_prompt_history:
  "history (chat (snd (send_system_prompt ext sp ex))) =
     (case generate ext (invocations (chat ex))
             (Request (history (chat ex)) (priming_message (topic ex)) None) of
        Inl e \<Rightarrow> history (chat ex)
      | Inr reply \<Rightarrow> history (chat ex)
          @ [Content User (priming_message (topic ex)) None, Content Model reply None])"
  by (simp add: send_system_prompt_def try_except_def chat_send_def Let_def split: sum.split)

lemma send_system_prompt_returns: "fst (send_system_prompt ext sp ex) = Inr ()"
  by (simp add: send_system_prompt_def try_except_def split: prod.split sum.split)

lemma send_system_prompt_topic: "topic (snd (send_system_prompt ext sp ex)) = topic ex"
  by (simp add: send_system_prompt_def try_except_def split: prod.split sum.split)



text \<open>
  Claim C9.  When the priming send of a topic expert fails, construction and \<open>reset\<close>
  still return normally: \<open>_send_system_prompt\<close> catches the exception.  The expert exists,
  with its topic, and its history is empty: no priming exchange is in it.
\<close>

theorem priming_failure_swallowed:
  "(generate ext [] (Request [] (priming_message t) None) = Inl e \<longrightarrow>
      fst (TopicExpert_init ext t ctx name) = Inr ()
      \<and> topic (snd (TopicExpert_init ext t ctx name)) = t
      \<and> history (chat (snd (TopicExpert_init ext t ctx name))) = [])
   \<and> (generate ext (invocations (chat ex)) (Request [] (priming_message (topic ex)) None) = Inl e'
        \<longrightarrow>
      fst (TopicExpert_reset ext ex) = Inr ()
      \<and> topic (snd (TopicExpert_reset ext ex)) = topic ex
      \<and> history (chat (snd (TopicExpert_reset ext ex))) = [])"
  by (simp add: TopicExpert_init_def TopicExpert_reset_def start_chat_def new_session_def
      send_system_prompt_history send_system_prompt_returns send_system_prompt_topic)

theorem priming_failure_swallowed_witness:
  "generate ext_down [] (Request [] (priming_message ''chess'') None)
     = Inl (Raised ''model unavailable'')
   \<and> generate ext_down (invocations (chat expert_in_conversation))
        (Request [] (priming_message (topic expert_in_conversation)) None)
     = Inl (Raised ''model unavailable'')
   \<and> fst (TopicExpert_init ext_down ''chess'' None ''gemma-3-8b-it'') = Inr ()
   \<and> history (chat (snd (TopicExpert_init ext_down ''chess'' None ''gemma-3-8b-it''))) = []
   \<and> history (chat expert_in_conversation) \<noteq> []
   \<and> fst (TopicExpert_reset ext_down expert_in_conversation) = Inr ()
   \<and> history (chat (snd (TopicExpert_reset ext_down expert_in_conversation))) = []"
  using priming_failure_swallowed
    [where ext = ext_down and t = "''chess''" and ctx = None and name = "''gemma-3-8b-it''"
       and ex = expert_in_conversation and e = "Raised ''model unavailable''"
       and e' = "Raised ''model unavailable''"]
  by (simp add: ext_down_def model_down_def expert_in_conversation_def)

section \<open>Image payloads\<close>

text \<open>
  \<open>GemmaClient.send_message\<close> on a vision client: a payload behind a data-URI header and
  the bare payload are treated alike.
\<close>

lemma GemmaClient_strips_data_uri:
  assumes "startswith h ''data:image''" and "CHR '','' \<notin> set h"
    and "CHR '','' \<notin> set payload" and "payload \<noteq> []"
    and "\<not> startswith payload ''data:image''"
  shows "GemmaClient_send_message ext message (Some (h @ CHR '','' # payload)) cl
       = GemmaClient_send_message ext message (Some payload) cl"
proof -
  have "startswith (h @ CHR '','' # payload) ''data:image''"
    using assms(1) by (rule startswith_append)
  then show ?thesis
    using assms data_uri_payload [of h payload]
    by (simp add: GemmaClient_send_message_def try_except_def send_message_body_def)
qed

lemma web_interface_bare_payload:
  "CHR '','' \<notin> set image_data \<Longrightarrow>
   web_interface_process_image_query ext prompt image_data conv st =
     (Inr (), wi_put_response
        \<lparr>conversation_id = conv, response = None, error = Some ''list index out of range''\<rparr> st)"
  using bare_payload_index_error [of image_data]
  by (simp add: web_interface_process_image_query_def try_except_def)

text \<open>
  Claim C7.  Take a base64 payload that the decoders accept: it decodes to bytes that
  parse as an image.  \<open>process_image_query\<close> of \<open>web_interface.py\<close> takes the part after
  the first comma without looking for a header, so the bare payload, which has no comma,
  is never handed to the decoder: the index fails and the worker publishes
  \<open>list index out of range\<close> as the job's error.  The same payload behind a data-URI
  header is decoded and the image goes to the model.  \<open>GemmaClient.send_message\<close> on a
  vision client sends the image in both forms.
\<close>

theorem web_interface_rejects_bare_base64:
  assumes "CHR '','' \<notin> set payload" and "payload \<noteq> []"
    and "\<not> startswith payload ''data:image''"
    and "CHR '','' \<notin> set header" and "startswith header ''data:image''"
    and "b64decode ext payload = Inr image_bytes" and "Image_open ext image_bytes = Inr img"
  shows "web_interface_process_image_query ext prompt payload conv st =
           (Inr (), wi_put_response
              \<lparr>conversation_id = conv, response = None,
               error = Some ''list index out of range''\<rparr> st)
       \<and> (vision_chat_sampler st = Some cs \<longrightarrow>
            wi_response_queue (snd (web_interface_process_image_query ext prompt
                (header @ CHR '','' # payload) conv st)) =
              wi_response_queue st
                @ [published conv
                     (generate ext (invocations cs) (Request (history cs) prompt (Some img)))])
       \<and> (use_vision cl \<longrightarrow>
            fst (GemmaClient_send_message ext prompt (Some payload) cl) =
              Inr (returned_by_client
                     (generate ext (invocations (chat_session cl))
                        (Request [] prompt (Some img)))))
       \<and> (use_vision cl \<longrightarrow>
            fst (GemmaClient_send_message ext prompt (Some (header @ CHR '','' # payload)) cl) =
              Inr (returned_by_client
                     (generate ext (invocations (chat_session cl))
                        (Request [] prompt (Some img)))))"
proof -
  have a: "web_interface_process_image_query ext prompt payload conv st =
           (Inr (), wi_put_response
              \<lparr>conversation_id = conv, response = None,
               error = Some ''list index out of range''\<rparr> st)"
    using assms(1) by (rule web_interface_bare_payload)
  have idx: "py_index (split_on CHR '','' (header @ CHR '','' # payload)) 1 = Inr payload"
    using assms(4,1) by (rule data_uri_payload)
  have b: "vision_chat_sampler st = Some cs \<longrightarrow>
            wi_response_queue (snd (web_interface_process_image_query ext prompt
                (header @ CHR '','' # payload) conv st)) =
              wi_response_queue st
                @ [published conv
                     (generate ext (invocations cs) (Request (history cs) prompt (Some img)))]"
    using idx assms(6,7) by (simp add: wi_image_worker_entry)
  have c: "use_vision cl \<longrightarrow>
            fst (GemmaClient_send_message ext prompt (Some payload) cl) =
              Inr (returned_by_client
                     (generate ext (invocations (chat_session cl))
                        (Request [] prompt (Some img))))"
    using assms(2,3,6,7)
    by (simp add: GemmaClient_send_message_result send_message_body_outcome)
  have d: "use_vision cl \<longrightarrow>
            fst (GemmaClient_send_message ext prompt (Some (header @ CHR '','' # payload)) cl) =
              Inr (returned_by_client
                     (generate ext (invocations (chat_session cl))
                        (Request [] prompt (Some img))))"
    using c GemmaClient_strips_data_uri [OF assms(5,4,1,2,3), of ext prompt cl] by simp
  from a b c d show ?thesis by (intro conjI)
qed

text \<open>The one-pixel PNG, bare and behind the header \<open>data:image/png;base64\<close>.\<close>

theorem web_interface_rejects_bare_base64_witness:
  "CHR '','' \<notin> set png_payload \<and> png_payload \<noteq> []
   \<and> \<not> startswith png_payload ''data:image''
   \<and> CHR '','' \<notin> set ''data:image/png;base64''
   \<and> startswith ''data:image/png;base64'' ''data:image''
   \<and> b64decode ext_png png_payload = Inr png_bytes
   \<and> Image_open ext_png png_bytes = Inr (Image png_bytes)
   \<and> vision_chat_sampler web_interface_ready = Some new_session
   \<and> use_vision (GemmaClient_init True)
   \<and> wi_response_queue (snd (web_interface_process_image_query ext_png ''describe this''
        png_payload ''A'' web_interface_ready))
       = [\<lparr>conversation_id = ''A'', response = None, error = Some ''list index out of range''\<rparr>]
   \<and> wi_response_queue (snd (web_interface_process_image_query ext_png ''describe this''
        (''data:image/png;base64'' @ CHR '','' # png_payload) ''A'' web_interface_ready))
       = [\<lparr>conversation_id = ''A'', response = Some ''summary of: desc'', error = None\<rparr>]
   \<and> fst (GemmaClient_send_message ext_png ''describe this'' (Some png_payload)
        (GemmaClient_init True)) = Inr ''summary of: desc''
   \<and> fst (GemmaClient_send_message ext_png ''describe this''
        (Some (''data:image/png;base64'' @ CHR '','' # png_payload)) (GemmaClient_init True))
       = Inr ''summary of: desc''"
proof -
  have h: "CHR '','' \<notin> set png_payload" "png_payload \<noteq> []"
    "\<not> startswith png_payload ''data:image''"
    "CHR '','' \<notin> set ''data:image/png;base64''"
    "startswith ''data:image/png;base64'' ''data:image''"
    "b64decode ext_png png_payload = Inr png_bytes"
    "Image_open ext_png png_bytes = Inr (Image png_bytes)"
    by (simp_all add: png_payload_def startswith_def ext_png_def b64decode_png_def
        Image_open_png_def)
  from web_interface_rejects_bare_base64 [OF h, of "''describe this''" "''A''"
      web_interface_ready new_session "GemmaClient_init True"] h
  show ?thesis
    by (simp add: web_interface_ready_def GemmaClient_init_def new_session_def
        wi_put_response_def queue_put_def published_def returned_by_client_def ext_png_def
        model_echo_def)
qed

end
